theory Spec2Isabelle
  imports Main "HOL-Library.Sublist"
begin

section \<open>Data model\<close>

text \<open>
  The connector's records, field by field as the Go structs declare them. Field names
  carry the struct's name as a prefix, since several structs share \<open>ID\<close>, \<open>Name\<close> and
  \<open>Summary\<close>. A Go \<open>string\<close> is a byte sequence, hence a \<open>string\<close> here; a pointer
  field that may be nil is an \<open>option\<close>; a slice is a list; \<open>map[string]string\<close> is a
  partial function. An instant of \<open>time.Time\<close> is an integer (the connector only copies
  and formats instants). The Go \<open>int\<close> values (limit, count, total, status code) are
  only compared and printed, never computed with, so they are unbounded integers.
\<close>

type_synonym Time = int

record Priority =
  Priority_ID :: string
  Priority_Name :: string
  Priority_Summary :: string

record Service =
  Service_ID :: string
  Service_Name :: string
  Service_Summary :: string

record Assignee =
  Assignee_ID :: string
  Assignee_Name :: string
  Assignee_Summary :: string

record Assignment =
  Assignment_At :: Time
  Assignment_Assignee :: Assignee

record EscalationPolicy =
  EscalationPolicy_ID :: string
  EscalationPolicy_Name :: string
  EscalationPolicy_Summary :: string

record Incident =
  Incident_ID :: string
  Incident_Type :: string
  Incident_Summary :: string
  Incident_Description :: string
  Incident_Status :: string
  Incident_Urgency :: string
  Incident_Priority :: "Priority option"
  Incident_CreatedAt :: Time
  Incident_UpdatedAt :: Time
  Incident_ResolvedAt :: "Time option"
  Incident_Service :: Service
  Incident_Assignments :: "Assignment list"
  Incident_EscalationPolicy :: EscalationPolicy
  Incident_HTMLURL :: string

record IncidentListResponse =
  ListResponse_Incidents :: "Incident list"
  ListResponse_Limit :: int
  ListResponse_Offset :: int
  ListResponse_Total :: int
  ListResponse_More :: bool

text \<open>
  \<open>transform.Document\<close> belongs to another package; these are the fields the connector
  sets when it builds one.
\<close>

record Document =
  Document_ID :: string
  Document_Content :: string
  Document_Title :: string
  Document_Source :: string
  Document_URL :: string
  Document_Metadata :: "string \<rightharpoonup> string"
  Document_UpdatedAt :: Time

section \<open>The document mapper\<close>

text \<open>
  \<open>strings.Join\<close> of the Go standard library: nothing for no element, the element
  itself for one, otherwise the elements with the separator between neighbours.
\<close>

fun strings_Join :: "string list \<Rightarrow> string \<Rightarrow> string" where
  "strings_Join [] sep = []"
| "strings_Join [e] sep = e"
| "strings_Join (e # es) sep = e @ sep @ strings_Join es sep"

text \<open>The separator \<open>"\n\n"\<close>: two line feeds.\<close>

definition blank_line :: string where
  "blank_line = [CHR 0x0A, CHR 0x0A]"

definition incidentToDocument :: "Incident \<Rightarrow> Document" where
  "incidentToDocument incident =
     (let contentParts = [];
          contentParts = contentParts @ [Incident_Summary incident];
          contentParts = (if Incident_Description incident \<noteq> []
                          then contentParts @ [Incident_Description incident]
                          else contentParts);
          content = strings_Join contentParts blank_line;
          metadata = [''incident_id'' \<mapsto> Incident_ID incident,
                      ''status'' \<mapsto> Incident_Status incident,
                      ''urgency'' \<mapsto> Incident_Urgency incident,
                      ''service'' \<mapsto> Service_Name (Incident_Service incident)];
          metadata = (case Incident_Priority incident of
                        None \<Rightarrow> metadata
                      | Some p \<Rightarrow> metadata(''priority'' \<mapsto> Priority_Name p));
          metadata = (case Incident_Assignments incident of
                        [] \<Rightarrow> metadata
                      | a # _ \<Rightarrow> metadata(''assignee'' \<mapsto> Assignee_Name (Assignment_Assignee a)))
      in \<lparr>Document_ID = Incident_ID incident,
          Document_Content = content,
          Document_Title = Incident_Summary incident,
          Document_Source = ''pagerduty'',
          Document_URL = Incident_HTMLURL incident,
          Document_Metadata = metadata,
          Document_UpdatedAt = Incident_UpdatedAt incident\<rparr>)"

section \<open>Errors and formatting\<close>

text \<open>
  A Go \<open>error\<close> value: either a plain message (\<open>fmt.Errorf\<close> without \<open>%w\<close>,
  \<open>errors.New\<close>) or a message that wraps the error it was built from (\<open>fmt.Errorf\<close>
  with \<open>%w\<close>). \<open>Error\<close> is the method of that name, \<open>Unwrap\<close> the wrapped error.
\<close>

datatype go_error = ErrorString string | WrapError string go_error

fun Error :: "go_error \<Rightarrow> string" where
  "Error (ErrorString s) = s"
| "Error (WrapError msg err) = msg"

fun Unwrap :: "go_error \<Rightarrow> go_error option" where
  "Unwrap (ErrorString s) = None"
| "Unwrap (WrapError msg err) = Some err"

text \<open>\<open>fmt.Errorf(label + "%w", err)\<close>: the label, then the message of \<open>err\<close>.\<close>

definition Errorf_w :: "string \<Rightarrow> go_error \<Rightarrow> go_error" where
  "Errorf_w label err = WrapError (label @ Error err) err"

text \<open>\<open>fmt.Sprintf("%d", n)\<close>: the decimal digits, after a minus sign below zero.\<close>

fun decimal :: "nat \<Rightarrow> string" where
  "decimal n = (if n < 10 then [''0123456789'' ! n]
                else decimal (n div 10) @ [''0123456789'' ! (n mod 10)])"

declare decimal.simps [simp del]

definition Sprintf_d :: "int \<Rightarrow> string" where
  "Sprintf_d n = (if n < 0 then CHR ''-'' # decimal (nat (- n)) else decimal (nat n))"

section \<open>The collaborators\<close>

text \<open>
  An HTTP request as the client builds it. The endpoint \<open>path?query\<close> is kept in its two
  parts: the text before the question mark and the \<open>url.Values\<close> that \<open>Encode\<close> writes
  after it (each key is set at most once, so the values are a map from key to value).
\<close>

record Request =
  Request_Method :: string
  Request_Path :: string
  Request_Query :: "string \<rightharpoonup> string"
  Request_Header :: "string \<rightharpoonup> string"

text \<open>A response: the status code and the bytes that reading the body yields.\<close>

record Response =
  Response_StatusCode :: int
  Response_Body :: string

text \<open>
  What lies outside the connector: the formatting of an instant as RFC 3339, the check
  \<open>http.NewRequestWithContext\<close> makes of the endpoint (an error, or none), one exchange
  with the server under the client's timeout (a transport error, which covers a
  cancelled context, or the server's response to that request), what \<open>net/http\<close> makes
  of a redirect response to a request (no \<open>Location\<close> header: nothing; a \<open>Location\<close>
  that does not parse: an error; otherwise the request for the new location), the
  \<open>url.Error\<close> that \<open>http.Client.Do\<close> builds around an error, the two JSON decodings
  of a body, and \<open>transform.StoreDocuments\<close>, which returns an error or a reference
  handle of a type the connector does not look into.
\<close>

record 'ref Env =
  time_Format_RFC3339 :: "Time \<Rightarrow> string"
  http_NewRequest_error :: "string \<Rightarrow> (string \<rightharpoonup> string) \<Rightarrow> go_error option"
  http_RoundTrip :: "int \<Rightarrow> Request \<Rightarrow> go_error + Response"
  http_redirect :: "Request \<Rightarrow> Response \<Rightarrow> (go_error + Request) option"
  url_Error :: "Request \<Rightarrow> go_error \<Rightarrow> go_error"
  json_Decode_list :: "string \<Rightarrow> go_error + IncidentListResponse"
  json_Decode_incident :: "string \<Rightarrow> go_error + Incident"
  transform_StoreDocuments :: "Document list \<Rightarrow> go_error + 'ref"

text \<open>
  \<open>http.Client.Do\<close> of a client that sets no \<open>CheckRedirect\<close>, as \<open>NewClient\<close> builds
  it, for a GET request without a body: the request is sent; a response with status
  301, 302, 303, 307 or 308 that names a location is not handed back but followed by
  a request to that location; the default policy gives up with an error once ten
  requests have been sent. Any other response is handed back as it is.
\<close>

definition redirect_status :: "int \<Rightarrow> bool" where
  "redirect_status code \<longleftrightarrow>
     code = 301 \<or> code = 302 \<or> code = 303 \<or> code = 307 \<or> code = 308"

fun http_Do_follow :: "'ref Env \<Rightarrow> int \<Rightarrow> nat \<Rightarrow> Request \<Rightarrow> go_error + Response" where
  "http_Do_follow env timeout 0 req =
     Inl (url_Error env req (ErrorString ''stopped after 10 redirects''))"
| "http_Do_follow env timeout (Suc n) req =
     (case http_RoundTrip env timeout req of
        Inl err \<Rightarrow> Inl (url_Error env req err)
      | Inr resp \<Rightarrow>
          if redirect_status (Response_StatusCode resp)
          then (case http_redirect env req resp of
                  None \<Rightarrow> Inr resp
                | Some (Inl err) \<Rightarrow> Inl (url_Error env req err)
                | Some (Inr next) \<Rightarrow> http_Do_follow env timeout n next)
          else Inr resp)"

definition http_Do :: "'ref Env \<Rightarrow> int \<Rightarrow> Request \<Rightarrow> go_error + Response" where
  "http_Do env timeout req = http_Do_follow env timeout 10 req"

text \<open>
  Every run returns, next to its result, the calls it made in order: the entries into
  the client's two methods and into the mapper with the arguments they received, and
  the calls to the collaborators with theirs.
\<close>

datatype event =
    ListIncidentsCall "Time option" "Time option" int
  | GetIncidentCall string
  | HttpDo Request
  | JsonDecode string
  | incidentToDocumentCall Incident
  | StoreDocumentsCall "Document list"

fun list_calls :: "event list \<Rightarrow> (Time option \<times> Time option \<times> int) list" where
  "list_calls [] = []"
| "list_calls (ListIncidentsCall since until limit # es) = (since, until, limit) # list_calls es"
| "list_calls (e # es) = list_calls es"

fun requests :: "event list \<Rightarrow> Request list" where
  "requests [] = []"
| "requests (HttpDo req # es) = req # requests es"
| "requests (e # es) = requests es"

fun decodings :: "event list \<Rightarrow> string list" where
  "decodings [] = []"
| "decodings (JsonDecode body # es) = body # decodings es"
| "decodings (e # es) = decodings es"

fun stores :: "event list \<Rightarrow> Document list list" where
  "stores [] = []"
| "stores (StoreDocumentsCall docs # es) = docs # stores es"
| "stores (e # es) = stores es"

fun mapper_calls :: "event list \<Rightarrow> Incident list" where
  "mapper_calls [] = []"
| "mapper_calls (incidentToDocumentCall incident # es) = incident # mapper_calls es"
| "mapper_calls (e # es) = mapper_calls es"

section \<open>The API client\<close>

definition baseURL :: string where
  "baseURL = ''https://api.pagerduty.com''"

text \<open>A \<open>time.Duration\<close> counts nanoseconds.\<close>

definition Second :: int where
  "Second = 1000000000"

record ClientConfig =
  ClientConfig_APIKey :: string
  ClientConfig_Timeout :: int

text \<open>The client: its key and the timeout of the \<open>http.Client\<close> it owns.\<close>

record Client =
  Client_apiKey :: string
  Client_httpClient_Timeout :: int

definition NewClient :: "ClientConfig \<Rightarrow> Client" where
  "NewClient cfg =
     (let timeout = ClientConfig_Timeout cfg;
          timeout = (if timeout = 0 then 30 * Second else timeout)
      in \<lparr>Client_apiKey = ClientConfig_APIKey cfg, Client_httpClient_Timeout = timeout\<rparr>)"

definition http_NewRequest ::
  "'ref Env \<Rightarrow> string \<Rightarrow> string \<Rightarrow> (string \<rightharpoonup> string) \<Rightarrow> go_error + Request" where
  "http_NewRequest env method path query =
     (case http_NewRequest_error env path query of
        Some err \<Rightarrow> Inl err
      | None \<Rightarrow> Inr \<lparr>Request_Method = method, Request_Path = path, Request_Query = query,
                     Request_Header = Map.empty\<rparr>)"

definition setAuth :: "Client \<Rightarrow> Request \<Rightarrow> Request" where
  "setAuth c req =
     req\<lparr>Request_Header := (Request_Header req)
           (''Authorization'' \<mapsto> ''Token token='' @ Client_apiKey c,
            ''Accept'' \<mapsto> ''application/json'',
            ''Content-Type'' \<mapsto> ''application/json'')\<rparr>"

text \<open>The message of the error both methods return for a status other than 200.\<close>

definition api_error :: "Response \<Rightarrow> go_error" where
  "api_error resp =
     ErrorString (''pagerduty API error: status='' @ Sprintf_d (Response_StatusCode resp)
                  @ '' body='' @ Response_Body resp)"

definition ListIncidents ::
  "'ref Env \<Rightarrow> Client \<Rightarrow> Time option \<Rightarrow> Time option \<Rightarrow> int
     \<Rightarrow> (go_error + IncidentListResponse) \<times> event list" where
  "ListIncidents env c since until limit0 =
     (let called = [ListIncidentsCall since until limit0];
          limit = (if limit0 \<le> 0 then 25 else limit0);
          params = Map.empty;
          params = params(''limit'' \<mapsto> Sprintf_d limit);
          params = (case since of None \<Rightarrow> params
                    | Some t \<Rightarrow> params(''since'' \<mapsto> time_Format_RFC3339 env t));
          params = (case until of None \<Rightarrow> params
                    | Some t \<Rightarrow> params(''until'' \<mapsto> time_Format_RFC3339 env t))
      in case http_NewRequest env ''GET'' (baseURL @ ''/incidents'') params of
           Inl err \<Rightarrow> (Inl (Errorf_w ''create request: '' err), called)
         | Inr req0 \<Rightarrow>
             (let req = setAuth c req0
              in case http_Do env (Client_httpClient_Timeout c) req of
                   Inl err \<Rightarrow> (Inl (Errorf_w ''execute request: '' err), called @ [HttpDo req])
                 | Inr resp \<Rightarrow>
                     if Response_StatusCode resp \<noteq> 200
                     then (Inl (api_error resp), called @ [HttpDo req])
                     else (case json_Decode_list env (Response_Body resp) of
                             Inl err \<Rightarrow>
                               (Inl (Errorf_w ''decode response: '' err),
                                called @ [HttpDo req, JsonDecode (Response_Body resp)])
                           | Inr result \<Rightarrow>
                               (Inr result,
                                called @ [HttpDo req, JsonDecode (Response_Body resp)]))))"

definition GetIncident ::
  "'ref Env \<Rightarrow> Client \<Rightarrow> string \<Rightarrow> (go_error + Incident) \<times> event list" where
  "GetIncident env c incidentID =
     (let called = [GetIncidentCall incidentID]
      in case http_NewRequest env ''GET'' (baseURL @ ''/incidents/'' @ incidentID) Map.empty of
           Inl err \<Rightarrow> (Inl (Errorf_w ''create request: '' err), called)
         | Inr req0 \<Rightarrow>
             (let req = setAuth c req0
              in case http_Do env (Client_httpClient_Timeout c) req of
                   Inl err \<Rightarrow> (Inl (Errorf_w ''execute request: '' err), called @ [HttpDo req])
                 | Inr resp \<Rightarrow>
                     if Response_StatusCode resp \<noteq> 200
                     then (Inl (api_error resp), called @ [HttpDo req])
                     else (case json_Decode_incident env (Response_Body resp) of
                             Inl err \<Rightarrow>
                               (Inl (Errorf_w ''decode response: '' err),
                                called @ [HttpDo req, JsonDecode (Response_Body resp)])
                           | Inr incident \<Rightarrow>
                               (Inr incident,
                                called @ [HttpDo req, JsonDecode (Response_Body resp)]))))"

text \<open>
  The request each method hands to \<open>http.Client.Do\<close> once \<open>http.NewRequestWithContext\<close>
  has accepted the endpoint: the method, the endpoint with its parameters, and the
  headers \<open>setAuth\<close> sets.
\<close>

definition ListIncidents_request ::
  "'ref Env \<Rightarrow> Client \<Rightarrow> Time option \<Rightarrow> Time option \<Rightarrow> int \<Rightarrow> Request" where
  "ListIncidents_request env c since until limit0 =
     (let limit = (if limit0 \<le> 0 then 25 else limit0);
          params = Map.empty;
          params = params(''limit'' \<mapsto> Sprintf_d limit);
          params = (case since of None \<Rightarrow> params
                    | Some t \<Rightarrow> params(''since'' \<mapsto> time_Format_RFC3339 env t));
          params = (case until of None \<Rightarrow> params
                    | Some t \<Rightarrow> params(''until'' \<mapsto> time_Format_RFC3339 env t))
      in setAuth c \<lparr>Request_Method = ''GET'', Request_Path = baseURL @ ''/incidents'',
                    Request_Query = params, Request_Header = Map.empty\<rparr>)"

definition GetIncident_request :: "Client \<Rightarrow> string \<Rightarrow> Request" where
  "GetIncident_request c incidentID =
     setAuth c \<lparr>Request_Method = ''GET'', Request_Path = baseURL @ ''/incidents/'' @ incidentID,
                Request_Query = Map.empty, Request_Header = Map.empty\<rparr>"

section \<open>The activities\<close>

record FetchIncidentsInput =
  FetchIncidentsInput_APIKey :: string
  FetchIncidentsInput_Since :: "Time option"
  FetchIncidentsInput_Until :: "Time option"
  FetchIncidentsInput_Limit :: int

record 'ref FetchIncidentsOutput =
  FetchIncidentsOutput_Ref :: 'ref
  FetchIncidentsOutput_Count :: int
  FetchIncidentsOutput_Total :: int

record FetchIncidentInput =
  FetchIncidentInput_APIKey :: string
  FetchIncidentInput_IncidentID :: string

record FetchIncidentOutput =
  FetchIncidentOutput_Document :: Document
  FetchIncidentOutput_Found :: bool

record FetchPostmortemsInput =
  FetchPostmortemsInput_APIKey :: string
  FetchPostmortemsInput_Since :: "Time option"
  FetchPostmortemsInput_Limit :: int

record 'ref FetchPostmortemsOutput =
  FetchPostmortemsOutput_Ref :: 'ref
  FetchPostmortemsOutput_Count :: int

text \<open>
  The loop of \<open>FetchIncidentsActivity\<close> over the incidents of the response: each one is
  mapped and appended to the documents so far.
\<close>

fun FetchIncidents_loop :: "Incident list \<Rightarrow> Document list \<Rightarrow> Document list" where
  "FetchIncidents_loop [] docs = docs"
| "FetchIncidents_loop (incident # rest) docs =
     (let doc = incidentToDocument incident
      in FetchIncidents_loop rest (docs @ [doc]))"

text \<open>
  The loop of \<open>FetchPostmortemsActivity\<close>: an incident whose status is \<open>resolved\<close> is
  mapped, its metadata gets the entry \<open>document_type\<close>, and it is appended; any other
  incident is passed over.
\<close>

fun FetchPostmortems_loop :: "Incident list \<Rightarrow> Document list \<Rightarrow> Document list" where
  "FetchPostmortems_loop [] docs = docs"
| "FetchPostmortems_loop (incident # rest) docs =
     (if Incident_Status incident = ''resolved''
      then (let doc = incidentToDocument incident;
                doc = doc\<lparr>Document_Metadata :=
                            (Document_Metadata doc)(''document_type'' \<mapsto> ''postmortem'')\<rparr>
            in FetchPostmortems_loop rest (docs @ [doc]))
      else FetchPostmortems_loop rest docs)"

text \<open>
  The calls of the mapper the two loops make, in order: one for each incident in the
  first loop, one for each incident whose status is \<open>resolved\<close> in the second.
\<close>

fun FetchIncidents_loop_calls :: "Incident list \<Rightarrow> event list" where
  "FetchIncidents_loop_calls [] = []"
| "FetchIncidents_loop_calls (incident # rest) =
     incidentToDocumentCall incident # FetchIncidents_loop_calls rest"

fun FetchPostmortems_loop_calls :: "Incident list \<Rightarrow> event list" where
  "FetchPostmortems_loop_calls [] = []"
| "FetchPostmortems_loop_calls (incident # rest) =
     (if Incident_Status incident = ''resolved''
      then incidentToDocumentCall incident # FetchPostmortems_loop_calls rest
      else FetchPostmortems_loop_calls rest)"

definition FetchIncidentsActivity ::
  "'ref Env \<Rightarrow> FetchIncidentsInput
     \<Rightarrow> (go_error + 'ref FetchIncidentsOutput) \<times> event list" where
  "FetchIncidentsActivity env input =
     (let client = NewClient \<lparr>ClientConfig_APIKey = FetchIncidentsInput_APIKey input,
                               ClientConfig_Timeout = 0\<rparr>;
          limit = FetchIncidentsInput_Limit input;
          limit = (if limit \<le> 0 then 100 else limit)
      in case ListIncidents env client (FetchIncidentsInput_Since input)
                (FetchIncidentsInput_Until input) limit of
           (Inl err, tr) \<Rightarrow> (Inl (Errorf_w ''list incidents: '' err), tr)
         | (Inr result, tr) \<Rightarrow>
             (let docs = FetchIncidents_loop (ListResponse_Incidents result) [];
                  tr = tr @ FetchIncidents_loop_calls (ListResponse_Incidents result)
              in case transform_StoreDocuments env docs of
                   Inl err \<Rightarrow>
                     (Inl (Errorf_w ''store documents: '' err), tr @ [StoreDocumentsCall docs])
                 | Inr ref \<Rightarrow>
                     (Inr \<lparr>FetchIncidentsOutput_Ref = ref,
                           FetchIncidentsOutput_Count = int (length docs),
                           FetchIncidentsOutput_Total = ListResponse_Total result\<rparr>,
                      tr @ [StoreDocumentsCall docs])))"

definition FetchIncidentActivity ::
  "'ref Env \<Rightarrow> FetchIncidentInput \<Rightarrow> (go_error + FetchIncidentOutput) \<times> event list" where
  "FetchIncidentActivity env input =
     (let client = NewClient \<lparr>ClientConfig_APIKey = FetchIncidentInput_APIKey input,
                               ClientConfig_Timeout = 0\<rparr>
      in case GetIncident env client (FetchIncidentInput_IncidentID input) of
           (Inl err, tr) \<Rightarrow> (Inl (Errorf_w ''get incident: '' err), tr)
         | (Inr incident, tr) \<Rightarrow>
             (Inr \<lparr>FetchIncidentOutput_Document = incidentToDocument incident,
                   FetchIncidentOutput_Found = True\<rparr>,
              tr @ [incidentToDocumentCall incident]))"

definition FetchPostmortemsActivity ::
  "'ref Env \<Rightarrow> FetchPostmortemsInput
     \<Rightarrow> (go_error + 'ref FetchPostmortemsOutput) \<times> event list" where
  "FetchPostmortemsActivity env input =
     (let client = NewClient \<lparr>ClientConfig_APIKey = FetchPostmortemsInput_APIKey input,
                               ClientConfig_Timeout = 0\<rparr>;
          limit = FetchPostmortemsInput_Limit input;
          limit = (if limit \<le> 0 then 100 else limit)
      in case ListIncidents env client (FetchPostmortemsInput_Since input) None limit of
           (Inl err, tr) \<Rightarrow> (Inl (Errorf_w ''list incidents: '' err), tr)
         | (Inr result, tr) \<Rightarrow>
             (let docs = FetchPostmortems_loop (ListResponse_Incidents result) [];
                  tr = tr @ FetchPostmortems_loop_calls (ListResponse_Incidents result)
              in case transform_StoreDocuments env docs of
                   Inl err \<Rightarrow>
                     (Inl (Errorf_w ''store documents: '' err), tr @ [StoreDocumentsCall docs])
                 | Inr ref \<Rightarrow>
                     (Inr \<lparr>FetchPostmortemsOutput_Ref = ref,
                           FetchPostmortemsOutput_Count = int (length docs)\<rparr>,
                      tr @ [StoreDocumentsCall docs])))"

section \<open>Sample data\<close>

definition sample_service :: Service where
  "sample_service = \<lparr>Service_ID = ''S1'', Service_Name = ''checkout'', Service_Summary = ''Checkout''\<rparr>"

definition sample_policy :: EscalationPolicy where
  "sample_policy = \<lparr>EscalationPolicy_ID = ''E1'', EscalationPolicy_Name = ''default'',
                     EscalationPolicy_Summary = ''Default''\<rparr>"

definition sample_priority :: Priority where
  "sample_priority = \<lparr>Priority_ID = ''P1'', Priority_Name = ''P1'', Priority_Summary = ''Critical''\<rparr>"

definition sample_assignment :: "string \<Rightarrow> Assignment" where
  "sample_assignment n =
     \<lparr>Assignment_At = 5,
      Assignment_Assignee = \<lparr>Assignee_ID = ''U1'', Assignee_Name = n, Assignee_Summary = n\<rparr>\<rparr>"

text \<open>An incident with the given id, status, description, priority and assignments.\<close>

definition sample_incident ::
  "string \<Rightarrow> string \<Rightarrow> string \<Rightarrow> Priority option \<Rightarrow> Assignment list \<Rightarrow> Incident" where
  "sample_incident i st descr prio asg =
     \<lparr>Incident_ID = i, Incident_Type = ''incident'', Incident_Summary = ''DB down'',
      Incident_Description = descr, Incident_Status = st, Incident_Urgency = ''high'',
      Incident_Priority = prio, Incident_CreatedAt = 1, Incident_UpdatedAt = 2,
      Incident_ResolvedAt = None, Incident_Service = sample_service,
      Incident_Assignments = asg, Incident_EscalationPolicy = sample_policy,
      Incident_HTMLURL = ''https://example.pagerduty.com/incidents/'' @ i\<rparr>"


text \<open>
  A list response and an environment whose collaborators answer every call alike: the
  server with \<open>http\<close> and no location to follow, the decodings with \<open>lst\<close> and \<open>inc\<close>,
  the storage with \<open>sto\<close>.
\<close>

definition sample_response :: "Incident list \<Rightarrow> int \<Rightarrow> IncidentListResponse" where
  "sample_response incs tot =
     \<lparr>ListResponse_Incidents = incs, ListResponse_Limit = 100, ListResponse_Offset = 0,
      ListResponse_Total = tot, ListResponse_More = False\<rparr>"

definition sample_env ::
  "(go_error + Response) \<Rightarrow> (go_error + IncidentListResponse) \<Rightarrow> (go_error + Incident)
     \<Rightarrow> (go_error + string) \<Rightarrow> string Env" where
  "sample_env http lst inc sto =
     \<lparr>time_Format_RFC3339 = (\<lambda>t. ''2024-05-01T00:00:00Z''),
      http_NewRequest_error = (\<lambda>path query. None),
      http_RoundTrip = (\<lambda>timeout req. http),
      http_redirect = (\<lambda>req resp. None),
      url_Error = (\<lambda>req err. err),
      json_Decode_list = (\<lambda>body. lst),
      json_Decode_incident = (\<lambda>body. inc),
      transform_StoreDocuments = (\<lambda>docs. sto)\<rparr>"

definition ok_response :: "go_error + Response" where
  "ok_response = Inr \<lparr>Response_StatusCode = 200, Response_Body = ''{}''\<rparr>"

definition not_found_body :: string where
  "not_found_body = ''{\"error\":\"not found\"}''"

definition not_found_response :: "go_error + Response" where
  "not_found_response = Inr \<lparr>Response_StatusCode = 404, Response_Body = not_found_body\<rparr>"

text \<open>
  Four incidents with the statuses triggered, acknowledged, resolved and resolved, and
  the inputs of the three activities used in the examples.
\<close>

definition four_incidents :: "Incident list" where
  "four_incidents =
     [sample_incident ''I1'' ''triggered'' [] None [],
      sample_incident ''I2'' ''acknowledged'' ''paged'' (Some sample_priority) [],
      sample_incident ''I3'' ''resolved'' ''fixed'' None [sample_assignment ''ada''],
      sample_incident ''I4'' ''resolved'' [] None []]"

definition incidents_input :: "int \<Rightarrow> FetchIncidentsInput" where
  "incidents_input limit =
     \<lparr>FetchIncidentsInput_APIKey = ''key'', FetchIncidentsInput_Since = Some 10,
      FetchIncidentsInput_Until = Some 20, FetchIncidentsInput_Limit = limit\<rparr>"

definition postmortems_input :: "int \<Rightarrow> FetchPostmortemsInput" where
  "postmortems_input limit =
     \<lparr>FetchPostmortemsInput_APIKey = ''key'', FetchPostmortemsInput_Since = Some 10,
      FetchPostmortemsInput_Limit = limit\<rparr>"

definition incident_input :: FetchIncidentInput where
  "incident_input =
     \<lparr>FetchIncidentInput_APIKey = ''key'', FetchIncidentInput_IncidentID = ''I3''\<rparr>"

text \<open>
  Three environments: one where every call succeeds and the list holds the four
  incidents, one where the service answers 404, one where only the storage fails.
\<close>

definition env_ok :: "string Env" where
  "env_ok = sample_env ok_response (Inr (sample_response four_incidents 57))
              (Inr (sample_incident ''I3'' ''resolved'' ''fixed'' None [])) (Inr ''ref-1'')"

definition env_404 :: "string Env" where
  "env_404 = sample_env not_found_response (Inr (sample_response four_incidents 57))
               (Inr (sample_incident ''I3'' ''resolved'' ''fixed'' None [])) (Inr ''ref-1'')"

text \<open>
  An environment where the two endpoints of \<open>api.pagerduty.com\<close> answer 302 with a
  location on another host, which answers 200.
\<close>

definition moved_response :: Response where
  "moved_response = \<lparr>Response_StatusCode = 302, Response_Body = ''moved''\<rparr>"

definition env_redirect :: "string Env" where
  "env_redirect =
     \<lparr>time_Format_RFC3339 = (\<lambda>t. ''2024-05-01T00:00:00Z''),
      http_NewRequest_error = (\<lambda>path query. None),
      http_RoundTrip = (\<lambda>timeout req.
         if take 25 (Request_Path req) = ''https://api.pagerduty.com''
         then Inr moved_response else ok_response),
      http_redirect = (\<lambda>req resp.
         Some (Inr (req\<lparr>Request_Path := ''https://eu.pagerduty.com'' @ drop 25 (Request_Path req)\<rparr>))),
      url_Error = (\<lambda>req err. err),
      json_Decode_list = (\<lambda>body. Inr (sample_response four_incidents 57)),
      json_Decode_incident =
        (\<lambda>body. Inr (sample_incident ''I3'' ''resolved'' ''fixed'' None [])),
      transform_StoreDocuments = (\<lambda>docs. Inr ''ref-1'')\<rparr>"

definition env_store_fails :: "string Env" where
  "env_store_fails = sample_env ok_response (Inr (sample_response four_incidents 57))
               (Inr (sample_incident ''I3'' ''resolved'' ''fixed'' None []))
               (Inl (ErrorString ''bucket unavailable''))"

section \<open>Properties of the mapper\<close>

lemma metadata_dom:
  "dom (Document_Metadata (incidentToDocument incident)) =
     {''incident_id'', ''status'', ''urgency'', ''service''}
     \<union> (case Incident_Priority incident of None \<Rightarrow> {} | Some p \<Rightarrow> {''priority''})
     \<union> (case Incident_Assignments incident of [] \<Rightarrow> {} | a # as \<Rightarrow> {''assignee''})"
  by (auto simp add: incidentToDocument_def Let_def split: option.splits list.splits)

lemma metadata_fixed:
  "Document_Metadata (incidentToDocument incident) ''incident_id'' = Some (Incident_ID incident)"
  "Document_Metadata (incidentToDocument incident) ''status'' = Some (Incident_Status incident)"
  "Document_Metadata (incidentToDocument incident) ''urgency'' = Some (Incident_Urgency incident)"
  "Document_Metadata (incidentToDocument incident) ''service''
     = Some (Service_Name (Incident_Service incident))"
  by (simp_all add: incidentToDocument_def Let_def split: option.splits list.splits)

lemma metadata_priority:
  "Document_Metadata (incidentToDocument incident) ''priority''
     = (case Incident_Priority incident of None \<Rightarrow> None | Some p \<Rightarrow> Some (Priority_Name p))"
  by (simp add: incidentToDocument_def Let_def split: option.splits list.splits)

lemma metadata_assignee:
  "Document_Metadata (incidentToDocument incident) ''assignee''
     = (case Incident_Assignments incident of [] \<Rightarrow> None
        | a # as \<Rightarrow> Some (Assignee_Name (Assignment_Assignee a)))"
  by (simp add: incidentToDocument_def Let_def split: option.splits list.splits)

lemma metadata_no_document_type:
  "Document_Metadata (incidentToDocument incident) ''document_type'' = None"
  by (simp add: incidentToDocument_def Let_def split: option.splits list.splits)

text \<open>
  Claim C1. The content of the document mapped from an incident is the summary, then
  two line feeds, then the description when the description is not empty; it is the
  summary alone, with no separator after it, when the description is empty.
\<close>

theorem incidentToDocument_content:
  "Document_Content (incidentToDocument incident) =
     (if Incident_Description incident \<noteq> []
      then Incident_Summary incident @ [CHR 0x0A, CHR 0x0A] @ Incident_Description incident
      else Incident_Summary incident)"
  by (simp add: incidentToDocument_def blank_line_def Let_def)

theorem incidentToDocument_content_witness:
  "Document_Content (incidentToDocument (sample_incident ''I1'' ''triggered'' ''disk full'' None []))
     = ''DB down'' @ [CHR 0x0A, CHR 0x0A] @ ''disk full''
   \<and> Document_Content (incidentToDocument (sample_incident ''I1'' ''triggered'' [] None []))
     = ''DB down''"
  using incidentToDocument_content [of "sample_incident ''I1'' ''triggered'' ''disk full'' None []"]
    incidentToDocument_content [of "sample_incident ''I1'' ''triggered'' [] None []"]
  by (simp add: sample_incident_def)

text \<open>
  Claim C2. The metadata of the mapped document has exactly the keys \<open>incident_id\<close>,
  \<open>status\<close>, \<open>urgency\<close> and \<open>service\<close>, the key \<open>priority\<close> exactly when the incident has
  a priority (its value the priority's name), and the key \<open>assignee\<close> exactly when the
  incident has an assignment (its value the name of the first assignment's assignee).
\<close>

theorem incidentToDocument_metadata:
  "dom (Document_Metadata (incidentToDocument incident)) =
     {''incident_id'', ''status'', ''urgency'', ''service''}
     \<union> (case Incident_Priority incident of None \<Rightarrow> {} | Some p \<Rightarrow> {''priority''})
     \<union> (case Incident_Assignments incident of [] \<Rightarrow> {} | a # as \<Rightarrow> {''assignee''})
   \<and> Document_Metadata (incidentToDocument incident) ''incident_id''
       = Some (Incident_ID incident)
   \<and> Document_Metadata (incidentToDocument incident) ''status''
       = Some (Incident_Status incident)
   \<and> Document_Metadata (incidentToDocument incident) ''urgency''
       = Some (Incident_Urgency incident)
   \<and> Document_Metadata (incidentToDocument incident) ''service''
       = Some (Service_Name (Incident_Service incident))
   \<and> Document_Metadata (incidentToDocument incident) ''priority''
       = (case Incident_Priority incident of None \<Rightarrow> None | Some p \<Rightarrow> Some (Priority_Name p))
   \<and> Document_Metadata (incidentToDocument incident) ''assignee''
       = (case Incident_Assignments incident of [] \<Rightarrow> None
          | a # as \<Rightarrow> Some (Assignee_Name (Assignment_Assignee a)))"
  by (simp add: metadata_dom metadata_fixed metadata_priority metadata_assignee)

theorem incidentToDocument_metadata_witness:
  "dom (Document_Metadata (incidentToDocument
          (sample_incident ''I1'' ''triggered'' [] (Some sample_priority)
             [sample_assignment ''ada'', sample_assignment ''bob''])))
     = {''incident_id'', ''status'', ''urgency'', ''service'', ''priority'', ''assignee''}
   \<and> Document_Metadata (incidentToDocument
          (sample_incident ''I1'' ''triggered'' [] (Some sample_priority)
             [sample_assignment ''ada'', sample_assignment ''bob''])) ''assignee'' = Some ''ada''
   \<and> dom (Document_Metadata (incidentToDocument (sample_incident ''I2'' ''resolved'' [] None [])))
     = {''incident_id'', ''status'', ''urgency'', ''service''}"
  using incidentToDocument_metadata
      [of "sample_incident ''I1'' ''triggered'' [] (Some sample_priority)
             [sample_assignment ''ada'', sample_assignment ''bob'']"]
    incidentToDocument_metadata [of "sample_incident ''I2'' ''resolved'' [] None []"]
  by (simp add: sample_incident_def sample_assignment_def insert_commute)

section \<open>The loops, the calls and the activities\<close>

lemma Sprintf_d_100: "Sprintf_d 100 = ''100''"
  by code_simp

lemma Sprintf_d_25: "Sprintf_d 25 = ''25''"
  by code_simp

lemma Sprintf_d_404: "Sprintf_d 404 = ''404''"
  by code_simp

lemma FetchIncidents_loop_append:
  "FetchIncidents_loop incs docs = docs @ map incidentToDocument incs"
  by (induction incs arbitrary: docs) (simp_all add: Let_def)

lemma FetchPostmortems_loop_append:
  "FetchPostmortems_loop incs docs =
     docs @ map (\<lambda>i. (incidentToDocument i)\<lparr>Document_Metadata :=
                   (Document_Metadata (incidentToDocument i))(''document_type'' \<mapsto> ''postmortem'')\<rparr>)
              (filter (\<lambda>i. Incident_Status i = ''resolved'') incs)"
  by (induction incs arbitrary: docs) (simp_all add: Let_def)

lemma list_calls_ListIncidents:
  "list_calls (snd (ListIncidents env c s u l)) = [(s, u, l)]"
  by (simp add: ListIncidents_def Let_def split: sum.splits)

lemma stores_ListIncidents:
  "stores (snd (ListIncidents env c s u l)) = []"
  by (simp add: ListIncidents_def Let_def split: sum.splits)

lemma list_calls_append: "list_calls (xs @ ys) = list_calls xs @ list_calls ys"
  by (induction xs rule: list_calls.induct) simp_all

lemma requests_append: "requests (xs @ ys) = requests xs @ requests ys"
  by (induction xs rule: requests.induct) simp_all

lemma decodings_append: "decodings (xs @ ys) = decodings xs @ decodings ys"
  by (induction xs rule: decodings.induct) simp_all

lemma stores_append: "stores (xs @ ys) = stores xs @ stores ys"
  by (induction xs rule: stores.induct) simp_all

lemma mapper_calls_append: "mapper_calls (xs @ ys) = mapper_calls xs @ mapper_calls ys"
  by (induction xs rule: mapper_calls.induct) simp_all

lemma FetchIncidents_loop_calls_projections:
  "list_calls (FetchIncidents_loop_calls incs) = []"
  "requests (FetchIncidents_loop_calls incs) = []"
  "decodings (FetchIncidents_loop_calls incs) = []"
  "stores (FetchIncidents_loop_calls incs) = []"
  "mapper_calls (FetchIncidents_loop_calls incs) = incs"
  by (induction incs) simp_all

lemma FetchPostmortems_loop_calls_projections:
  "list_calls (FetchPostmortems_loop_calls incs) = []"
  "requests (FetchPostmortems_loop_calls incs) = []"
  "decodings (FetchPostmortems_loop_calls incs) = []"
  "stores (FetchPostmortems_loop_calls incs) = []"
  "mapper_calls (FetchPostmortems_loop_calls incs)
     = filter (\<lambda>i. Incident_Status i = ''resolved'') incs"
  by (induction incs) simp_all

lemmas loop_calls_projections =
  FetchIncidents_loop_calls_projections FetchPostmortems_loop_calls_projections

lemma FetchIncidentsActivity_unfold:
  "FetchIncidentsActivity env input =
     (let r = ListIncidents env
                (NewClient \<lparr>ClientConfig_APIKey = FetchIncidentsInput_APIKey input,
                            ClientConfig_Timeout = 0\<rparr>)
                (FetchIncidentsInput_Since input) (FetchIncidentsInput_Until input)
                (if FetchIncidentsInput_Limit input \<le> 0 then 100 else FetchIncidentsInput_Limit input)
      in case fst r of
           Inl err \<Rightarrow> (Inl (Errorf_w ''list incidents: '' err), snd r)
         | Inr result \<Rightarrow>
             (case transform_StoreDocuments env (map incidentToDocument (ListResponse_Incidents result)) of
                Inl err \<Rightarrow> (Inl (Errorf_w ''store documents: '' err),
                   snd r @ FetchIncidents_loop_calls (ListResponse_Incidents result)
                  @ [StoreDocumentsCall (map incidentToDocument (ListResponse_Incidents result))])
              | Inr ref \<Rightarrow>
                  (Inr \<lparr>FetchIncidentsOutput_Ref = ref,
                        FetchIncidentsOutput_Count = int (length (ListResponse_Incidents result)),
                        FetchIncidentsOutput_Total = ListResponse_Total result\<rparr>,
                   snd r @ FetchIncidents_loop_calls (ListResponse_Incidents result)
                  @ [StoreDocumentsCall (map incidentToDocument (ListResponse_Incidents result))])))"
  by (simp add: FetchIncidentsActivity_def Let_def FetchIncidents_loop_append
       split: prod.splits sum.splits)

lemma FetchPostmortemsActivity_unfold:
  "FetchPostmortemsActivity env input =
     (let r = ListIncidents env
                (NewClient \<lparr>ClientConfig_APIKey = FetchPostmortemsInput_APIKey input,
                            ClientConfig_Timeout = 0\<rparr>)
                (FetchPostmortemsInput_Since input) None
                (if FetchPostmortemsInput_Limit input \<le> 0 then 100
                 else FetchPostmortemsInput_Limit input)
      in case fst r of
           Inl err \<Rightarrow> (Inl (Errorf_w ''list incidents: '' err), snd r)
         | Inr result \<Rightarrow>
             (case transform_StoreDocuments env
                     (FetchPostmortems_loop (ListResponse_Incidents result) []) of
                Inl err \<Rightarrow> (Inl (Errorf_w ''store documents: '' err),
                   snd r @ FetchPostmortems_loop_calls (ListResponse_Incidents result)
                     @ [StoreDocumentsCall
                              (FetchPostmortems_loop (ListResponse_Incidents result) [])])
              | Inr ref \<Rightarrow>
                  (Inr \<lparr>FetchPostmortemsOutput_Ref = ref,
                        FetchPostmortemsOutput_Count =
                          int (length (FetchPostmortems_loop (ListResponse_Incidents result) []))\<rparr>,
                   snd r @ FetchPostmortems_loop_calls (ListResponse_Incidents result)
                     @ [StoreDocumentsCall
                              (FetchPostmortems_loop (ListResponse_Incidents result) [])])))"
  by (simp add: FetchPostmortemsActivity_def Let_def split: prod.splits sum.splits)

lemma FetchIncidentActivity_unfold:
  "FetchIncidentActivity env input =
     (let r = GetIncident env
                (NewClient \<lparr>ClientConfig_APIKey = FetchIncidentInput_APIKey input,
                            ClientConfig_Timeout = 0\<rparr>)
                (FetchIncidentInput_IncidentID input)
      in case fst r of
           Inl err \<Rightarrow> (Inl (Errorf_w ''get incident: '' err), snd r)
         | Inr incident \<Rightarrow>
             (Inr \<lparr>FetchIncidentOutput_Document = incidentToDocument incident,
                   FetchIncidentOutput_Found = True\<rparr>,
              snd r @ [incidentToDocumentCall incident]))"
  by (simp add: FetchIncidentActivity_def Let_def split: prod.splits sum.splits)

lemma requests_ListIncidents_limit:
  "req \<in> set (requests (snd (ListIncidents env c s u l))) \<Longrightarrow>
     Request_Query req ''limit'' = Some (Sprintf_d (if l \<le> 0 then 25 else l))"
  by (auto simp add: ListIncidents_def Let_def http_NewRequest_def setAuth_def
        split: sum.splits option.splits if_splits)

lemma requests_ListIncidents_bounds:
  "req \<in> set (requests (snd (ListIncidents env c s u l))) \<Longrightarrow>
     Request_Query req ''since'' = map_option (time_Format_RFC3339 env) s
     \<and> Request_Query req ''until'' = map_option (time_Format_RFC3339 env) u"
  by (auto simp add: ListIncidents_def Let_def http_NewRequest_def setAuth_def
        split: sum.splits option.splits if_splits)

lemma ListIncidents_default:
  "l \<le> 0 \<Longrightarrow> fst (ListIncidents env c s u l) = fst (ListIncidents env c s u 25)"
  by (simp add: ListIncidents_def Let_def split: sum.splits option.splits)

lemma list_calls_FetchIncidentsActivity:
  "list_calls (snd (FetchIncidentsActivity env input)) =
     [(FetchIncidentsInput_Since input, FetchIncidentsInput_Until input,
       if FetchIncidentsInput_Limit input \<le> 0 then 100 else FetchIncidentsInput_Limit input)]"
  by (simp add: FetchIncidentsActivity_unfold Let_def list_calls_append loop_calls_projections list_calls_ListIncidents
        split: sum.splits)

lemma list_calls_FetchPostmortemsActivity:
  "list_calls (snd (FetchPostmortemsActivity env input)) =
     [(FetchPostmortemsInput_Since input, None,
       if FetchPostmortemsInput_Limit input \<le> 0 then 100
       else FetchPostmortemsInput_Limit input)]"
  by (simp add: FetchPostmortemsActivity_unfold Let_def list_calls_append loop_calls_projections list_calls_ListIncidents
        split: sum.splits)

lemma requests_FetchIncidentsActivity:
  "requests (snd (FetchIncidentsActivity env input)) =
     requests (snd (ListIncidents env
        (NewClient \<lparr>ClientConfig_APIKey = FetchIncidentsInput_APIKey input,
                    ClientConfig_Timeout = 0\<rparr>)
        (FetchIncidentsInput_Since input) (FetchIncidentsInput_Until input)
        (if FetchIncidentsInput_Limit input \<le> 0 then 100 else FetchIncidentsInput_Limit input)))"
  by (simp add: FetchIncidentsActivity_unfold Let_def requests_append loop_calls_projections split: sum.splits)

lemma requests_FetchPostmortemsActivity:
  "requests (snd (FetchPostmortemsActivity env input)) =
     requests (snd (ListIncidents env
        (NewClient \<lparr>ClientConfig_APIKey = FetchPostmortemsInput_APIKey input,
                    ClientConfig_Timeout = 0\<rparr>)
        (FetchPostmortemsInput_Since input) None
        (if FetchPostmortemsInput_Limit input \<le> 0 then 100
         else FetchPostmortemsInput_Limit input)))"
  by (simp add: FetchPostmortemsActivity_unfold Let_def requests_append loop_calls_projections split: sum.splits)

lemma GetIncident_non_200:
  "requests (snd (GetIncident env c i)) = [req] \<Longrightarrow>
   http_Do env (Client_httpClient_Timeout c) req = Inr resp \<Longrightarrow>
   Response_StatusCode resp \<noteq> 200 \<Longrightarrow>
   GetIncident env c i = (Inl (api_error resp), [GetIncidentCall i, HttpDo req])"
  by (auto simp add: GetIncident_def Let_def split: sum.splits if_splits)

lemma requests_FetchIncidentActivity:
  "requests (snd (FetchIncidentActivity env input)) =
     requests (snd (GetIncident env
        (NewClient \<lparr>ClientConfig_APIKey = FetchIncidentInput_APIKey input,
                    ClientConfig_Timeout = 0\<rparr>)
        (FetchIncidentInput_IncidentID input)))"
  by (simp add: FetchIncidentActivity_unfold Let_def requests_append split: sum.splits)

lemma NewClient_timeout:
  "Client_httpClient_Timeout (NewClient \<lparr>ClientConfig_APIKey = k, ClientConfig_Timeout = 0\<rparr>)
     = 30 * Second"
  by (simp add: NewClient_def)

lemma Error_api_error:
  "Error (api_error resp) =
     ''pagerduty API error: status='' @ Sprintf_d (Response_StatusCode resp)
       @ '' body='' @ Response_Body resp"
  by (simp add: api_error_def)

lemma api_error_contains:
  "sublist (Sprintf_d (Response_StatusCode resp)) (Error (api_error resp))"
  "sublist (Response_Body resp) (Error (api_error resp))"
  unfolding Error_api_error sublist_def
  by (metis append.assoc, metis append.assoc append_Nil2)

lemma Error_Errorf_w: "Error (Errorf_w label err) = label @ Error err"
  by (simp add: Errorf_w_def)

lemma FetchIncidentActivity_non_200:
  assumes "requests (snd (FetchIncidentActivity env input)) = [req]"
    and "http_Do env (30 * Second) req = Inr resp"
    and "Response_StatusCode resp \<noteq> 200"
  shows "fst (FetchIncidentActivity env input) = Inl (Errorf_w ''get incident: '' (api_error resp))"
    and "decodings (snd (FetchIncidentActivity env input)) = []"
proof -
  let ?c = "NewClient \<lparr>ClientConfig_APIKey = FetchIncidentInput_APIKey input,
                        ClientConfig_Timeout = 0\<rparr>"
  have r: "requests (snd (GetIncident env ?c (FetchIncidentInput_IncidentID input))) = [req]"
    using assms(1) by (simp only: requests_FetchIncidentActivity)
  have d: "http_Do env (Client_httpClient_Timeout ?c) req = Inr resp"
    using assms(2) by (simp only: NewClient_timeout)
  note G = GetIncident_non_200 [OF r d assms(3)]
  show "fst (FetchIncidentActivity env input) = Inl (Errorf_w ''get incident: '' (api_error resp))"
    by (simp add: FetchIncidentActivity_unfold G)
  show "decodings (snd (FetchIncidentActivity env input)) = []"
    by (simp add: FetchIncidentActivity_unfold G)
qed

lemma FetchIncidentsActivity_list_ok:
  assumes "fst (ListIncidents env
      (NewClient \<lparr>ClientConfig_APIKey = FetchIncidentsInput_APIKey input,
                  ClientConfig_Timeout = 0\<rparr>)
      (FetchIncidentsInput_Since input) (FetchIncidentsInput_Until input)
      (if FetchIncidentsInput_Limit input \<le> 0 then 100 else FetchIncidentsInput_Limit input))
     = Inr result"
  shows "fst (FetchIncidentsActivity env input) =
     (case transform_StoreDocuments env (map incidentToDocument (ListResponse_Incidents result)) of
        Inl err \<Rightarrow> Inl (Errorf_w ''store documents: '' err)
      | Inr ref \<Rightarrow>
          Inr \<lparr>FetchIncidentsOutput_Ref = ref,
                FetchIncidentsOutput_Count = int (length (ListResponse_Incidents result)),
                FetchIncidentsOutput_Total = ListResponse_Total result\<rparr>)"
    and "stores (snd (FetchIncidentsActivity env input))
           = [map incidentToDocument (ListResponse_Incidents result)]"
  using assms
  by (simp_all only: FetchIncidentsActivity_unfold Let_def)
     (simp_all add: stores_append loop_calls_projections stores_ListIncidents split: sum.splits)

lemma FetchIncidentsActivity_list_failed:
  assumes "fst (ListIncidents env
      (NewClient \<lparr>ClientConfig_APIKey = FetchIncidentsInput_APIKey input,
                  ClientConfig_Timeout = 0\<rparr>)
      (FetchIncidentsInput_Since input) (FetchIncidentsInput_Until input)
      (if FetchIncidentsInput_Limit input \<le> 0 then 100 else FetchIncidentsInput_Limit input))
     = Inl err"
  shows "fst (FetchIncidentsActivity env input) = Inl (Errorf_w ''list incidents: '' err)"
  using assms
  by (simp only: FetchIncidentsActivity_unfold Let_def) simp

lemma http_Do_unfold:
  "http_Do env timeout req =
     (case http_RoundTrip env timeout req of
        Inl err \<Rightarrow> Inl (url_Error env req err)
      | Inr resp \<Rightarrow>
          if redirect_status (Response_StatusCode resp)
          then (case http_redirect env req resp of
                  None \<Rightarrow> Inr resp
                | Some (Inl err) \<Rightarrow> Inl (url_Error env req err)
                | Some (Inr next) \<Rightarrow> http_Do_follow env timeout 9 next)
          else Inr resp)"
proof -
  have "(10::nat) = Suc 9"
    by simp
  then show ?thesis
    by (simp only: http_Do_def http_Do_follow.simps)
qed

lemma http_Do_follow_9:
  "http_Do_follow env timeout 9 req =
     (case http_RoundTrip env timeout req of
        Inl err \<Rightarrow> Inl (url_Error env req err)
      | Inr resp \<Rightarrow>
          if redirect_status (Response_StatusCode resp)
          then (case http_redirect env req resp of
                  None \<Rightarrow> Inr resp
                | Some (Inl err) \<Rightarrow> Inl (url_Error env req err)
                | Some (Inr next) \<Rightarrow> http_Do_follow env timeout 8 next)
          else Inr resp)"
proof -
  have "(9::nat) = Suc 8"
    by simp
  then show ?thesis
    by (simp only: http_Do_follow.simps)
qed

lemmas sample_defs =
  http_Do_unfold redirect_status_def
  env_ok_def env_404_def env_store_fails_def incidents_input_def postmortems_input_def
  incident_input_def four_incidents_def
  sample_env_def sample_response_def ok_response_def not_found_response_def
  ListIncidents_def GetIncident_def http_NewRequest_def setAuth_def NewClient_def api_error_def
  FetchIncidentsActivity_def FetchPostmortemsActivity_def FetchIncidentActivity_def
  Errorf_w_def Let_def Second_def baseURL_def Sprintf_d_100 Sprintf_d_25 Sprintf_d_404

lemma FetchPostmortemsActivity_list_ok:
  assumes "fst (ListIncidents env
      (NewClient \<lparr>ClientConfig_APIKey = FetchPostmortemsInput_APIKey input,
                  ClientConfig_Timeout = 0\<rparr>)
      (FetchPostmortemsInput_Since input) None
      (if FetchPostmortemsInput_Limit input \<le> 0 then 100
       else FetchPostmortemsInput_Limit input))
     = Inr result"
  shows "fst (FetchPostmortemsActivity env input) =
     (case transform_StoreDocuments env
             (FetchPostmortems_loop (ListResponse_Incidents result) []) of
        Inl err \<Rightarrow> Inl (Errorf_w ''store documents: '' err)
      | Inr ref \<Rightarrow>
          Inr \<lparr>FetchPostmortemsOutput_Ref = ref,
                FetchPostmortemsOutput_Count =
                  int (length (FetchPostmortems_loop (ListResponse_Incidents result) []))\<rparr>)"
    and "stores (snd (FetchPostmortemsActivity env input))
           = [FetchPostmortems_loop (ListResponse_Incidents result) []]"
  using assms
  by (simp_all only: FetchPostmortemsActivity_unfold Let_def)
     (simp_all add: stores_append loop_calls_projections stores_ListIncidents split: sum.splits)

lemma FetchPostmortemsActivity_list_failed:
  assumes "fst (ListIncidents env
      (NewClient \<lparr>ClientConfig_APIKey = FetchPostmortemsInput_APIKey input,
                  ClientConfig_Timeout = 0\<rparr>)
      (FetchPostmortemsInput_Since input) None
      (if FetchPostmortemsInput_Limit input \<le> 0 then 100
       else FetchPostmortemsInput_Limit input))
     = Inl err"
  shows "fst (FetchPostmortemsActivity env input) = Inl (Errorf_w ''list incidents: '' err)"
  using assms
  by (simp only: FetchPostmortemsActivity_unfold Let_def) simp

lemma FetchPostmortems_loop_length:
  "length (FetchPostmortems_loop incs [])
     = length (filter (\<lambda>i. Incident_Status i = ''resolved'') incs)"
  by (simp add: FetchPostmortems_loop_append)

lemma FetchPostmortems_loop_ids:
  "map Document_ID (FetchPostmortems_loop incs [])
     = map Incident_ID (filter (\<lambda>i. Incident_Status i = ''resolved'') incs)"
  by (simp add: FetchPostmortems_loop_append incidentToDocument_def Let_def)

lemma FetchPostmortems_loop_tagged:
  "d \<in> set (FetchPostmortems_loop incs []) \<Longrightarrow>
     Document_Metadata d ''document_type'' = Some ''postmortem''"
  by (auto simp add: FetchPostmortems_loop_append)

lemma four_statuses_two_resolved:
  "map Incident_Status incs = [''triggered'', ''acknowledged'', ''resolved'', ''resolved''] \<Longrightarrow>
     length (filter (\<lambda>i. Incident_Status i = ''resolved'') incs) = 2"
  by (auto simp add: map_eq_Cons_conv)

lemma ListIncidents_status_not_200:
  assumes "http_NewRequest_error env (Request_Path (ListIncidents_request env c s u l))
             (Request_Query (ListIncidents_request env c s u l)) = None"
    and "http_Do env (Client_httpClient_Timeout c) (ListIncidents_request env c s u l) = Inr resp"
    and "Response_StatusCode resp \<noteq> 200"
  shows "ListIncidents env c s u l
           = (Inl (api_error resp),
              [ListIncidentsCall s u l, HttpDo (ListIncidents_request env c s u l)])"
  using assms
  by (simp add: ListIncidents_def ListIncidents_request_def http_NewRequest_def setAuth_def Let_def)

lemma GetIncident_status_not_200:
  assumes "http_NewRequest_error env (Request_Path (GetIncident_request c i))
             (Request_Query (GetIncident_request c i)) = None"
    and "http_Do env (Client_httpClient_Timeout c) (GetIncident_request c i) = Inr resp"
    and "Response_StatusCode resp \<noteq> 200"
  shows "GetIncident env c i
           = (Inl (api_error resp), [GetIncidentCall i, HttpDo (GetIncident_request c i)])"
  using assms
  by (simp add: GetIncident_def GetIncident_request_def http_NewRequest_def setAuth_def Let_def)

lemma FetchIncidentsActivity_status_not_200:
  assumes "http_NewRequest_error env
             (Request_Path (ListIncidents_request env
                (NewClient \<lparr>ClientConfig_APIKey = FetchIncidentsInput_APIKey input,
                            ClientConfig_Timeout = 0\<rparr>)
                (FetchIncidentsInput_Since input) (FetchIncidentsInput_Until input)
                (if FetchIncidentsInput_Limit input \<le> 0 then 100
                 else FetchIncidentsInput_Limit input)))
             (Request_Query (ListIncidents_request env
                (NewClient \<lparr>ClientConfig_APIKey = FetchIncidentsInput_APIKey input,
                            ClientConfig_Timeout = 0\<rparr>)
                (FetchIncidentsInput_Since input) (FetchIncidentsInput_Until input)
                (if FetchIncidentsInput_Limit input \<le> 0 then 100
                 else FetchIncidentsInput_Limit input))) = None"
    and "http_Do env (30 * Second)
           (ListIncidents_request env
              (NewClient \<lparr>ClientConfig_APIKey = FetchIncidentsInput_APIKey input,
                          ClientConfig_Timeout = 0\<rparr>)
              (FetchIncidentsInput_Since input) (FetchIncidentsInput_Until input)
              (if FetchIncidentsInput_Limit input \<le> 0 then 100
               else FetchIncidentsInput_Limit input)) = Inr resp"
    and "Response_StatusCode resp \<noteq> 200"
  shows "fst (FetchIncidentsActivity env input)
           = Inl (Errorf_w ''list incidents: '' (api_error resp))"
    and "decodings (snd (FetchIncidentsActivity env input)) = []"
    and "mapper_calls (snd (FetchIncidentsActivity env input)) = []"
    and "stores (snd (FetchIncidentsActivity env input)) = []"
proof -
  let ?c = "NewClient \<lparr>ClientConfig_APIKey = FetchIncidentsInput_APIKey input,
                        ClientConfig_Timeout = 0\<rparr>"
  let ?l = "if FetchIncidentsInput_Limit input \<le> 0 then 100 else FetchIncidentsInput_Limit input"
  let ?R = "ListIncidents_request env ?c (FetchIncidentsInput_Since input)
              (FetchIncidentsInput_Until input) ?l"
  have d: "http_Do env (Client_httpClient_Timeout ?c) ?R = Inr resp"
    using assms(2) by (simp only: NewClient_timeout)
  note L = ListIncidents_status_not_200 [OF assms(1) d assms(3)]
  show "fst (FetchIncidentsActivity env input)
          = Inl (Errorf_w ''list incidents: '' (api_error resp))"
    by (simp add: FetchIncidentsActivity_unfold L)
  show "decodings (snd (FetchIncidentsActivity env input)) = []"
    by (simp add: FetchIncidentsActivity_unfold L)
  show "mapper_calls (snd (FetchIncidentsActivity env input)) = []"
    by (simp add: FetchIncidentsActivity_unfold L)
  show "stores (snd (FetchIncidentsActivity env input)) = []"
    by (simp add: FetchIncidentsActivity_unfold L)
qed

lemma FetchPostmortemsActivity_status_not_200:
  assumes "http_NewRequest_error env
             (Request_Path (ListIncidents_request env
                (NewClient \<lparr>ClientConfig_APIKey = FetchPostmortemsInput_APIKey input,
                            ClientConfig_Timeout = 0\<rparr>)
                (FetchPostmortemsInput_Since input) None
                (if FetchPostmortemsInput_Limit input \<le> 0 then 100
                 else FetchPostmortemsInput_Limit input)))
             (Request_Query (ListIncidents_request env
                (NewClient \<lparr>ClientConfig_APIKey = FetchPostmortemsInput_APIKey input,
                            ClientConfig_Timeout = 0\<rparr>)
                (FetchPostmortemsInput_Since input) None
                (if FetchPostmortemsInput_Limit input \<le> 0 then 100
                 else FetchPostmortemsInput_Limit input))) = None"
    and "http_Do env (30 * Second)
           (ListIncidents_request env
              (NewClient \<lparr>ClientConfig_APIKey = FetchPostmortemsInput_APIKey input,
                          ClientConfig_Timeout = 0\<rparr>)
              (FetchPostmortemsInput_Since input) None
              (if FetchPostmortemsInput_Limit input \<le> 0 then 100
               else FetchPostmortemsInput_Limit input)) = Inr resp"
    and "Response_StatusCode resp \<noteq> 200"
  shows "fst (FetchPostmortemsActivity env input)
           = Inl (Errorf_w ''list incidents: '' (api_error resp))"
    and "decodings (snd (FetchPostmortemsActivity env input)) = []"
    and "mapper_calls (snd (FetchPostmortemsActivity env input)) = []"
    and "stores (snd (FetchPostmortemsActivity env input)) = []"
proof -
  let ?c = "NewClient \<lparr>ClientConfig_APIKey = FetchPostmortemsInput_APIKey input,
                        ClientConfig_Timeout = 0\<rparr>"
  let ?l = "if FetchPostmortemsInput_Limit input \<le> 0 then 100
            else FetchPostmortemsInput_Limit input"
  let ?R = "ListIncidents_request env ?c (FetchPostmortemsInput_Since input) None ?l"
  have d: "http_Do env (Client_httpClient_Timeout ?c) ?R = Inr resp"
    using assms(2) by (simp only: NewClient_timeout)
  note L = ListIncidents_status_not_200 [OF assms(1) d assms(3)]
  show "fst (FetchPostmortemsActivity env input)
          = Inl (Errorf_w ''list incidents: '' (api_error resp))"
    by (simp add: FetchPostmortemsActivity_unfold L)
  show "decodings (snd (FetchPostmortemsActivity env input)) = []"
    by (simp add: FetchPostmortemsActivity_unfold L)
  show "mapper_calls (snd (FetchPostmortemsActivity env input)) = []"
    by (simp add: FetchPostmortemsActivity_unfold L)
  show "stores (snd (FetchPostmortemsActivity env input)) = []"
    by (simp add: FetchPostmortemsActivity_unfold L)
qed

lemma FetchIncidentActivity_status_not_200:
  assumes "http_NewRequest_error env
             (Request_Path (GetIncident_request
                (NewClient \<lparr>ClientConfig_APIKey = FetchIncidentInput_APIKey input,
                            ClientConfig_Timeout = 0\<rparr>)
                (FetchIncidentInput_IncidentID input)))
             (Request_Query (GetIncident_request
                (NewClient \<lparr>ClientConfig_APIKey = FetchIncidentInput_APIKey input,
                            ClientConfig_Timeout = 0\<rparr>)
                (FetchIncidentInput_IncidentID input))) = None"
    and "http_Do env (30 * Second)
           (GetIncident_request
              (NewClient \<lparr>ClientConfig_APIKey = FetchIncidentInput_APIKey input,
                          ClientConfig_Timeout = 0\<rparr>)
              (FetchIncidentInput_IncidentID input)) = Inr resp"
    and "Response_StatusCode resp \<noteq> 200"
  shows "fst (FetchIncidentActivity env input)
           = Inl (Errorf_w ''get incident: '' (api_error resp))"
    and "decodings (snd (FetchIncidentActivity env input)) = []"
    and "mapper_calls (snd (FetchIncidentActivity env input)) = []"
proof -
  let ?c = "NewClient \<lparr>ClientConfig_APIKey = FetchIncidentInput_APIKey input,
                        ClientConfig_Timeout = 0\<rparr>"
  let ?R = "GetIncident_request ?c (FetchIncidentInput_IncidentID input)"
  have d: "http_Do env (Client_httpClient_Timeout ?c) ?R = Inr resp"
    using assms(2) by (simp only: NewClient_timeout)
  note G = GetIncident_status_not_200 [OF assms(1) d assms(3)]
  show "fst (FetchIncidentActivity env input)
          = Inl (Errorf_w ''get incident: '' (api_error resp))"
    by (simp add: FetchIncidentActivity_unfold G)
  show "decodings (snd (FetchIncidentActivity env input)) = []"
    by (simp add: FetchIncidentActivity_unfold G)
  show "mapper_calls (snd (FetchIncidentActivity env input)) = []"
    by (simp add: FetchIncidentActivity_unfold G)
qed

lemma FetchIncidentActivity_get_failed:
  assumes "fst (GetIncident env
      (NewClient \<lparr>ClientConfig_APIKey = FetchIncidentInput_APIKey input,
                  ClientConfig_Timeout = 0\<rparr>)
      (FetchIncidentInput_IncidentID input)) = Inl err"
  shows "fst (FetchIncidentActivity env input) = Inl (Errorf_w ''get incident: '' err)"
  using assms
  by (simp only: FetchIncidentActivity_unfold Let_def) simp

section \<open>Properties of the activities\<close>

text \<open>
  Claim C3. When the list call of \<open>FetchPostmortemsActivity\<close> returns a response, the
  activity hands the storage exactly one batch, holding one document for each incident
  of the response whose status is \<open>resolved\<close> and none for any other incident; every
  document of the batch carries the metadata entry \<open>document_type\<close> with the value
  \<open>postmortem\<close>. For incidents with the statuses triggered, acknowledged, resolved and
  resolved, the batch has exactly two documents.
\<close>

theorem FetchPostmortems_resolved_only:
  assumes "fst (ListIncidents env
      (NewClient \<lparr>ClientConfig_APIKey = FetchPostmortemsInput_APIKey input,
                  ClientConfig_Timeout = 0\<rparr>)
      (FetchPostmortemsInput_Since input) None
      (if FetchPostmortemsInput_Limit input \<le> 0 then 100
       else FetchPostmortemsInput_Limit input))
     = Inr result"
  shows "\<exists>docs.
           stores (snd (FetchPostmortemsActivity env input)) = [docs]
         \<and> length docs
             = length (filter (\<lambda>i. Incident_Status i = ''resolved'') (ListResponse_Incidents result))
         \<and> map Document_ID docs
             = map Incident_ID
                 (filter (\<lambda>i. Incident_Status i = ''resolved'') (ListResponse_Incidents result))
         \<and> (\<forall>d \<in> set docs. Document_Metadata d ''document_type'' = Some ''postmortem'')
         \<and> (map Incident_Status (ListResponse_Incidents result)
               = [''triggered'', ''acknowledged'', ''resolved'', ''resolved'']
             \<longrightarrow> length docs = 2)"
proof (intro exI conjI ballI impI)
  show "stores (snd (FetchPostmortemsActivity env input))
          = [FetchPostmortems_loop (ListResponse_Incidents result) []]"
    by (rule FetchPostmortemsActivity_list_ok(2) [OF assms])
next
  show "length (FetchPostmortems_loop (ListResponse_Incidents result) [])
          = length (filter (\<lambda>i. Incident_Status i = ''resolved'') (ListResponse_Incidents result))"
    by (rule FetchPostmortems_loop_length)
next
  show "map Document_ID (FetchPostmortems_loop (ListResponse_Incidents result) [])
          = map Incident_ID
              (filter (\<lambda>i. Incident_Status i = ''resolved'') (ListResponse_Incidents result))"
    by (rule FetchPostmortems_loop_ids)
next
  fix d assume "d \<in> set (FetchPostmortems_loop (ListResponse_Incidents result) [])"
  then show "Document_Metadata d ''document_type'' = Some ''postmortem''"
    by (rule FetchPostmortems_loop_tagged)
next
  assume "map Incident_Status (ListResponse_Incidents result)
            = [''triggered'', ''acknowledged'', ''resolved'', ''resolved'']"
  then show "length (FetchPostmortems_loop (ListResponse_Incidents result) []) = 2"
    by (simp only: FetchPostmortems_loop_length four_statuses_two_resolved)
qed

theorem FetchPostmortems_resolved_only_witness:
  "map Incident_Status four_incidents = [''triggered'', ''acknowledged'', ''resolved'', ''resolved'']
   \<and> (\<exists>docs. stores (snd (FetchPostmortemsActivity env_ok (postmortems_input 0))) = [docs]
         \<and> length docs = 2
         \<and> map Document_ID docs = [''I3'', ''I4'']
         \<and> (\<forall>d \<in> set docs. Document_Metadata d ''document_type'' = Some ''postmortem''))"
  using FetchPostmortems_resolved_only
    [of env_ok "postmortems_input 0" "sample_response four_incidents 57"]
  by (simp add: sample_defs sample_incident_def)

text \<open>
  Claim C4. \<open>FetchIncidentsActivity\<close> and \<open>FetchPostmortemsActivity\<close> call
  \<open>ListIncidents\<close> once, with the limit 100 when the input's limit is zero or negative
  and with the input's limit unchanged when it is positive, and the request they send
  carries that limit. \<open>ListIncidents\<close> itself, called with a limit that is zero or
  negative, sends the limit 25 and behaves as if called with 25.
\<close>

theorem effective_limit:
  "list_calls (snd (FetchIncidentsActivity env input)) =
     [(FetchIncidentsInput_Since input, FetchIncidentsInput_Until input,
       if FetchIncidentsInput_Limit input \<le> 0 then 100 else FetchIncidentsInput_Limit input)]
   \<and> list_calls (snd (FetchPostmortemsActivity env pinput)) =
     [(FetchPostmortemsInput_Since pinput, None,
       if FetchPostmortemsInput_Limit pinput \<le> 0 then 100
       else FetchPostmortemsInput_Limit pinput)]
   \<and> (\<forall>req \<in> set (requests (snd (FetchIncidentsActivity env input))).
         Request_Query req ''limit'' =
           Some (Sprintf_d (if FetchIncidentsInput_Limit input \<le> 0 then 100
                            else FetchIncidentsInput_Limit input)))
   \<and> (\<forall>req \<in> set (requests (snd (FetchPostmortemsActivity env pinput))).
         Request_Query req ''limit'' =
           Some (Sprintf_d (if FetchPostmortemsInput_Limit pinput \<le> 0 then 100
                            else FetchPostmortemsInput_Limit pinput)))
   \<and> (\<forall>req \<in> set (requests (snd (ListIncidents env c since until limit))).
         Request_Query req ''limit'' = Some (Sprintf_d (if limit \<le> 0 then 25 else limit)))
   \<and> (limit \<le> 0 \<longrightarrow>
         fst (ListIncidents env c since until limit) = fst (ListIncidents env c since until 25))"
proof (intro conjI ballI impI)
  show "list_calls (snd (FetchIncidentsActivity env input)) =
     [(FetchIncidentsInput_Since input, FetchIncidentsInput_Until input,
       if FetchIncidentsInput_Limit input \<le> 0 then 100 else FetchIncidentsInput_Limit input)]"
    by (rule list_calls_FetchIncidentsActivity)
next
  show "list_calls (snd (FetchPostmortemsActivity env pinput)) =
     [(FetchPostmortemsInput_Since pinput, None,
       if FetchPostmortemsInput_Limit pinput \<le> 0 then 100
       else FetchPostmortemsInput_Limit pinput)]"
    by (rule list_calls_FetchPostmortemsActivity)
next
  fix req assume "req \<in> set (requests (snd (FetchIncidentsActivity env input)))"
  then have "Request_Query req ''limit'' =
      Some (Sprintf_d (if (if FetchIncidentsInput_Limit input \<le> 0 then 100
                           else FetchIncidentsInput_Limit input) \<le> 0 then 25
                       else (if FetchIncidentsInput_Limit input \<le> 0 then 100
                             else FetchIncidentsInput_Limit input)))"
    unfolding requests_FetchIncidentsActivity by (rule requests_ListIncidents_limit)
  then show "Request_Query req ''limit'' =
      Some (Sprintf_d (if FetchIncidentsInput_Limit input \<le> 0 then 100
                       else FetchIncidentsInput_Limit input))"
    by (simp split: if_splits)
next
  fix req assume "req \<in> set (requests (snd (FetchPostmortemsActivity env pinput)))"
  then have "Request_Query req ''limit'' =
      Some (Sprintf_d (if (if FetchPostmortemsInput_Limit pinput \<le> 0 then 100
                           else FetchPostmortemsInput_Limit pinput) \<le> 0 then 25
                       else (if FetchPostmortemsInput_Limit pinput \<le> 0 then 100
                             else FetchPostmortemsInput_Limit pinput)))"
    unfolding requests_FetchPostmortemsActivity by (rule requests_ListIncidents_limit)
  then show "Request_Query req ''limit'' =
      Some (Sprintf_d (if FetchPostmortemsInput_Limit pinput \<le> 0 then 100
                       else FetchPostmortemsInput_Limit pinput))"
    by (simp split: if_splits)
next
  fix req assume "req \<in> set (requests (snd (ListIncidents env c since until limit)))"
  then show "Request_Query req ''limit'' = Some (Sprintf_d (if limit \<le> 0 then 25 else limit))"
    by (rule requests_ListIncidents_limit)
next
  assume "limit \<le> 0"
  then show "fst (ListIncidents env c since until limit) = fst (ListIncidents env c since until 25)"
    by (rule ListIncidents_default)
qed

theorem effective_limit_witness:
  "list_calls (snd (FetchIncidentsActivity env_ok (incidents_input 0)))
     = [(Some 10, Some 20, 100)]
   \<and> list_calls (snd (FetchIncidentsActivity env_ok (incidents_input 7)))
     = [(Some 10, Some 20, 7)]
   \<and> list_calls (snd (FetchPostmortemsActivity env_ok (postmortems_input (- 3))))
     = [(Some 10, None, 100)]
   \<and> map (\<lambda>req. Request_Query req ''limit'')
        (requests (snd (FetchIncidentsActivity env_ok (incidents_input 0)))) = [Some ''100'']
   \<and> map (\<lambda>req. Request_Query req ''limit'')
        (requests (snd (FetchPostmortemsActivity env_ok (postmortems_input (- 3))))) = [Some ''100'']
   \<and> map (\<lambda>req. Request_Query req ''limit'')
        (requests (snd (ListIncidents env_ok
           (NewClient \<lparr>ClientConfig_APIKey = ''key'', ClientConfig_Timeout = 0\<rparr>)
           None None (- 3)))) = [Some ''25'']
   \<and> fst (ListIncidents env_ok
           (NewClient \<lparr>ClientConfig_APIKey = ''key'', ClientConfig_Timeout = 0\<rparr>)
           None None (- 3))
     = fst (ListIncidents env_ok
           (NewClient \<lparr>ClientConfig_APIKey = ''key'', ClientConfig_Timeout = 0\<rparr>)
           None None 25)"
  using effective_limit
    [of env_ok "incidents_input 0" "postmortems_input (- 3)"
        "NewClient \<lparr>ClientConfig_APIKey = ''key'', ClientConfig_Timeout = 0\<rparr>" None None "- 3"]
    effective_limit
    [of env_ok "incidents_input 7" "postmortems_input (- 3)"
        "NewClient \<lparr>ClientConfig_APIKey = ''key'', ClientConfig_Timeout = 0\<rparr>" None None "- 3"]
  by (simp add: sample_defs)

text \<open>
  Claim C5. When \<open>FetchIncidentsActivity\<close> succeeds, the list call returned a
  response, the batch handed to the storage is the incidents of that response mapped
  one by one in the same order, the returned handle is the one the storage gave for
  that batch, the count is the number of incidents of the response, and the total is
  the total the server reported.
\<close>

theorem FetchIncidents_success:
  assumes "fst (FetchIncidentsActivity env input) = Inr out"
  shows "\<exists>result ref.
           fst (ListIncidents env
                  (NewClient \<lparr>ClientConfig_APIKey = FetchIncidentsInput_APIKey input,
                              ClientConfig_Timeout = 0\<rparr>)
                  (FetchIncidentsInput_Since input) (FetchIncidentsInput_Until input)
                  (if FetchIncidentsInput_Limit input \<le> 0 then 100
                   else FetchIncidentsInput_Limit input)) = Inr result
         \<and> stores (snd (FetchIncidentsActivity env input))
             = [map incidentToDocument (ListResponse_Incidents result)]
         \<and> transform_StoreDocuments env (map incidentToDocument (ListResponse_Incidents result))
             = Inr ref
         \<and> FetchIncidentsOutput_Ref out = ref
         \<and> FetchIncidentsOutput_Count out = int (length (ListResponse_Incidents result))
         \<and> FetchIncidentsOutput_Total out = ListResponse_Total result"
proof (cases "fst (ListIncidents env
                  (NewClient \<lparr>ClientConfig_APIKey = FetchIncidentsInput_APIKey input,
                              ClientConfig_Timeout = 0\<rparr>)
                  (FetchIncidentsInput_Since input) (FetchIncidentsInput_Until input)
                  (if FetchIncidentsInput_Limit input \<le> 0 then 100
                   else FetchIncidentsInput_Limit input))")
  case (Inl err)
  from FetchIncidentsActivity_list_failed [OF Inl] assms show ?thesis by simp
next
  case (Inr result)
  note ok = FetchIncidentsActivity_list_ok [OF Inr]
  show ?thesis
  proof (cases "transform_StoreDocuments env
                  (map incidentToDocument (ListResponse_Incidents result))")
    case (Inl err)
    with ok(1) assms show ?thesis by simp
  next
    case store: (Inr ref)
    with ok(1) assms have
      "out = \<lparr>FetchIncidentsOutput_Ref = ref,
              FetchIncidentsOutput_Count = int (length (ListResponse_Incidents result)),
              FetchIncidentsOutput_Total = ListResponse_Total result\<rparr>"
      by simp
    with Inr ok(2) store show ?thesis by simp
  qed
qed

theorem FetchIncidents_success_witness:
  "fst (FetchIncidentsActivity env_ok (incidents_input 0))
     = Inr \<lparr>FetchIncidentsOutput_Ref = ''ref-1'', FetchIncidentsOutput_Count = 4,
            FetchIncidentsOutput_Total = 57\<rparr>
   \<and> stores (snd (FetchIncidentsActivity env_ok (incidents_input 0)))
     = [map incidentToDocument four_incidents]"
  using FetchIncidents_success
    [of env_ok "incidents_input 0"
        "\<lparr>FetchIncidentsOutput_Ref = ''ref-1'', FetchIncidentsOutput_Count = 4,
            FetchIncidentsOutput_Total = 57\<rparr>"]
  by (simp add: sample_defs)

text \<open>
  Claim C6. \<open>FetchIncidentActivity\<close> returns an error, wrapping the client's error,
  whenever the client fails, as it does on a response whose status is not 200;
  otherwise it returns the document mapped from the fetched incident with the flag
  \<open>Found\<close> set. No run succeeds with the flag unset.
\<close>

theorem FetchIncident_found_or_error:
  "(case fst (FetchIncidentActivity env input) of
      Inl err \<Rightarrow>
        (\<exists>e. fst (GetIncident env
                    (NewClient \<lparr>ClientConfig_APIKey = FetchIncidentInput_APIKey input,
                                ClientConfig_Timeout = 0\<rparr>)
                    (FetchIncidentInput_IncidentID input)) = Inl e
            \<and> err = Errorf_w ''get incident: '' e)
    | Inr out \<Rightarrow>
        FetchIncidentOutput_Found out
        \<and> (\<exists>incident. fst (GetIncident env
                    (NewClient \<lparr>ClientConfig_APIKey = FetchIncidentInput_APIKey input,
                                ClientConfig_Timeout = 0\<rparr>)
                    (FetchIncidentInput_IncidentID input)) = Inr incident
            \<and> FetchIncidentOutput_Document out = incidentToDocument incident))
   \<and> (fst (GetIncident env
               (NewClient \<lparr>ClientConfig_APIKey = FetchIncidentInput_APIKey input,
                           ClientConfig_Timeout = 0\<rparr>)
               (FetchIncidentInput_IncidentID input)) = Inl e
      \<longrightarrow> fst (FetchIncidentActivity env input) = Inl (Errorf_w ''get incident: '' e))
   \<and> (requests (snd (FetchIncidentActivity env input)) = [req]
        \<and> http_Do env (30 * Second) req = Inr resp \<and> Response_StatusCode resp \<noteq> 200
      \<longrightarrow> fst (FetchIncidentActivity env input)
            = Inl (Errorf_w ''get incident: '' (api_error resp)))
   \<and> \<not> (\<exists>out. fst (FetchIncidentActivity env input) = Inr out
              \<and> \<not> FetchIncidentOutput_Found out)"
proof (intro conjI impI)
  assume "fst (GetIncident env
               (NewClient \<lparr>ClientConfig_APIKey = FetchIncidentInput_APIKey input,
                           ClientConfig_Timeout = 0\<rparr>)
               (FetchIncidentInput_IncidentID input)) = Inl e"
  then show "fst (FetchIncidentActivity env input) = Inl (Errorf_w ''get incident: '' e)"
    by (simp only: FetchIncidentActivity_unfold Let_def) simp
next
  show "case fst (FetchIncidentActivity env input) of
      Inl err \<Rightarrow>
        (\<exists>e. fst (GetIncident env
                    (NewClient \<lparr>ClientConfig_APIKey = FetchIncidentInput_APIKey input,
                                ClientConfig_Timeout = 0\<rparr>)
                    (FetchIncidentInput_IncidentID input)) = Inl e
            \<and> err = Errorf_w ''get incident: '' e)
    | Inr out \<Rightarrow>
        FetchIncidentOutput_Found out
        \<and> (\<exists>incident. fst (GetIncident env
                    (NewClient \<lparr>ClientConfig_APIKey = FetchIncidentInput_APIKey input,
                                ClientConfig_Timeout = 0\<rparr>)
                    (FetchIncidentInput_IncidentID input)) = Inr incident
            \<and> FetchIncidentOutput_Document out = incidentToDocument incident)"
    by (simp only: FetchIncidentActivity_unfold Let_def) (simp split: sum.splits)
next
  assume "requests (snd (FetchIncidentActivity env input)) = [req]
        \<and> http_Do env (30 * Second) req = Inr resp \<and> Response_StatusCode resp \<noteq> 200"
  then show "fst (FetchIncidentActivity env input)
            = Inl (Errorf_w ''get incident: '' (api_error resp))"
    by (simp add: FetchIncidentActivity_non_200(1))
next
  show "\<not> (\<exists>out. fst (FetchIncidentActivity env input) = Inr out
              \<and> \<not> FetchIncidentOutput_Found out)"
    by (simp only: FetchIncidentActivity_unfold Let_def) (auto split: sum.splits)
qed

theorem FetchIncident_found_or_error_witness:
  "fst (FetchIncidentActivity env_ok incident_input)
     = Inr \<lparr>FetchIncidentOutput_Document
              = incidentToDocument (sample_incident ''I3'' ''resolved'' ''fixed'' None []),
            FetchIncidentOutput_Found = True\<rparr>
   \<and> length (requests (snd (FetchIncidentActivity env_404 incident_input))) = 1
   \<and> http_Do env_404 (30 * Second)
        (hd (requests (snd (FetchIncidentActivity env_404 incident_input)))) = not_found_response
   \<and> Error (projl (fst (FetchIncidentActivity env_404 incident_input)))
     = ''get incident: pagerduty API error: status=404 body='' @ not_found_body
   \<and> isl (fst (FetchIncidentActivity env_404 incident_input))"
  using FetchIncident_found_or_error [of env_ok incident_input]
    FetchIncident_found_or_error
      [of env_404 incident_input
          "ErrorString (''pagerduty API error: status=404 body='' @ not_found_body)"
          "hd (requests (snd (FetchIncidentActivity env_404 incident_input)))"
          "\<lparr>Response_StatusCode = 404, Response_Body = not_found_body\<rparr>"]
  by (simp add: sample_defs)

text \<open>
  Claim C7, as amended. A response of the server with a redirect status and a location
  is followed by \<open>http.Client.Do\<close> and never reaches the client's status check, so the
  claim holds of the response that \<open>http.Client.Do\<close> hands back, not of every response
  of an endpoint. When the response handed back for the request of either method has
  a status other than 200, the method returns an error whose message holds the decimal
  status code and the body of the response, after the request and nothing else: no body
  is decoded. The three activities then return that error under the label of the
  failing step (\<open>list incidents\<close> or \<open>get incident\<close>), with nothing decoded, no call of
  the mapper and nothing handed to the storage. Any error of the client is returned
  under the label of its step, and an error of the storage under the label
  \<open>store documents\<close>. The wrapped error stays reachable through \<open>Unwrap\<close>.
\<close>

theorem non_200_is_error:
  assumes "Response_StatusCode resp \<noteq> 200"
  shows
   "(http_NewRequest_error env
         (Request_Path (ListIncidents_request env c since until limit))
         (Request_Query (ListIncidents_request env c since until limit)) = None
       \<and> http_Do env (Client_httpClient_Timeout c)
           (ListIncidents_request env c since until limit) = Inr resp
     \<longrightarrow> ListIncidents env c since until limit
           = (Inl (api_error resp),
              [ListIncidentsCall since until limit,
               HttpDo (ListIncidents_request env c since until limit)]))
    \<and> (http_NewRequest_error env
         (Request_Path (GetIncident_request c incidentID))
         (Request_Query (GetIncident_request c incidentID)) = None
       \<and> http_Do env (Client_httpClient_Timeout c) (GetIncident_request c incidentID) = Inr resp
     \<longrightarrow> GetIncident env c incidentID
           = (Inl (api_error resp),
              [GetIncidentCall incidentID, HttpDo (GetIncident_request c incidentID)]))
    \<and> Error (api_error resp)
        = ''pagerduty API error: status='' @ Sprintf_d (Response_StatusCode resp)
            @ '' body='' @ Response_Body resp
    \<and> sublist (Sprintf_d (Response_StatusCode resp)) (Error (api_error resp))
    \<and> sublist (Response_Body resp) (Error (api_error resp))
    \<and> (http_NewRequest_error env
         (Request_Path
            (ListIncidents_request env
              (NewClient \<lparr>ClientConfig_APIKey = FetchIncidentsInput_APIKey input,
                          ClientConfig_Timeout = 0\<rparr>)
              (FetchIncidentsInput_Since input) (FetchIncidentsInput_Until input)
              (if FetchIncidentsInput_Limit input \<le> 0 then 100
               else FetchIncidentsInput_Limit input)))
         (Request_Query
            (ListIncidents_request env
              (NewClient \<lparr>ClientConfig_APIKey = FetchIncidentsInput_APIKey input,
                          ClientConfig_Timeout = 0\<rparr>)
              (FetchIncidentsInput_Since input) (FetchIncidentsInput_Until input)
              (if FetchIncidentsInput_Limit input \<le> 0 then 100
               else FetchIncidentsInput_Limit input))) = None
       \<and> http_Do env (30 * Second)
            (ListIncidents_request env
              (NewClient \<lparr>ClientConfig_APIKey = FetchIncidentsInput_APIKey input,
                          ClientConfig_Timeout = 0\<rparr>)
              (FetchIncidentsInput_Since input) (FetchIncidentsInput_Until input)
              (if FetchIncidentsInput_Limit input \<le> 0 then 100
               else FetchIncidentsInput_Limit input)) = Inr resp
     \<longrightarrow> fst (FetchIncidentsActivity env input)
           = Inl (Errorf_w ''list incidents: '' (api_error resp))
         \<and> decodings (snd (FetchIncidentsActivity env input)) = []
         \<and> mapper_calls (snd (FetchIncidentsActivity env input)) = []
         \<and> stores (snd (FetchIncidentsActivity env input)) = [])
    \<and> (http_NewRequest_error env
         (Request_Path
            (ListIncidents_request env
              (NewClient \<lparr>ClientConfig_APIKey = FetchPostmortemsInput_APIKey pinput,
                          ClientConfig_Timeout = 0\<rparr>)
              (FetchPostmortemsInput_Since pinput) None
              (if FetchPostmortemsInput_Limit pinput \<le> 0 then 100
               else FetchPostmortemsInput_Limit pinput)))
         (Request_Query
            (ListIncidents_request env
              (NewClient \<lparr>ClientConfig_APIKey = FetchPostmortemsInput_APIKey pinput,
                          ClientConfig_Timeout = 0\<rparr>)
              (FetchPostmortemsInput_Since pinput) None
              (if FetchPostmortemsInput_Limit pinput \<le> 0 then 100
               else FetchPostmortemsInput_Limit pinput))) = None
       \<and> http_Do env (30 * Second)
            (ListIncidents_request env
              (NewClient \<lparr>ClientConfig_APIKey = FetchPostmortemsInput_APIKey pinput,
                          ClientConfig_Timeout = 0\<rparr>)
              (FetchPostmortemsInput_Since pinput) None
              (if FetchPostmortemsInput_Limit pinput \<le> 0 then 100
               else FetchPostmortemsInput_Limit pinput)) = Inr resp
     \<longrightarrow> fst (FetchPostmortemsActivity env pinput)
           = Inl (Errorf_w ''list incidents: '' (api_error resp))
         \<and> decodings (snd (FetchPostmortemsActivity env pinput)) = []
         \<and> mapper_calls (snd (FetchPostmortemsActivity env pinput)) = []
         \<and> stores (snd (FetchPostmortemsActivity env pinput)) = [])
    \<and> (http_NewRequest_error env
         (Request_Path
            (GetIncident_request
              (NewClient \<lparr>ClientConfig_APIKey = FetchIncidentInput_APIKey iinput,
                          ClientConfig_Timeout = 0\<rparr>)
              (FetchIncidentInput_IncidentID iinput)))
         (Request_Query
            (GetIncident_request
              (NewClient \<lparr>ClientConfig_APIKey = FetchIncidentInput_APIKey iinput,
                          ClientConfig_Timeout = 0\<rparr>)
              (FetchIncidentInput_IncidentID iinput))) = None
       \<and> http_Do env (30 * Second)
            (GetIncident_request
              (NewClient \<lparr>ClientConfig_APIKey = FetchIncidentInput_APIKey iinput,
                          ClientConfig_Timeout = 0\<rparr>)
              (FetchIncidentInput_IncidentID iinput)) = Inr resp
     \<longrightarrow> fst (FetchIncidentActivity env iinput)
           = Inl (Errorf_w ''get incident: '' (api_error resp))
         \<and> decodings (snd (FetchIncidentActivity env iinput)) = []
         \<and> mapper_calls (snd (FetchIncidentActivity env iinput)) = [])
    \<and> Error (Errorf_w label (api_error resp))
        = label @ ''pagerduty API error: status='' @ Sprintf_d (Response_StatusCode resp)
            @ '' body='' @ Response_Body resp
    \<and> Unwrap (Errorf_w label (api_error resp)) = Some (api_error resp)
    \<and> (fst (ListIncidents env
              (NewClient \<lparr>ClientConfig_APIKey = FetchIncidentsInput_APIKey input,
                          ClientConfig_Timeout = 0\<rparr>)
              (FetchIncidentsInput_Since input) (FetchIncidentsInput_Until input)
              (if FetchIncidentsInput_Limit input \<le> 0 then 100
               else FetchIncidentsInput_Limit input)) = Inl lerr
     \<longrightarrow> fst (FetchIncidentsActivity env input) = Inl (Errorf_w ''list incidents: '' lerr))
    \<and> (fst (ListIncidents env
              (NewClient \<lparr>ClientConfig_APIKey = FetchPostmortemsInput_APIKey pinput,
                          ClientConfig_Timeout = 0\<rparr>)
              (FetchPostmortemsInput_Since pinput) None
              (if FetchPostmortemsInput_Limit pinput \<le> 0 then 100
               else FetchPostmortemsInput_Limit pinput)) = Inl perr
     \<longrightarrow> fst (FetchPostmortemsActivity env pinput) = Inl (Errorf_w ''list incidents: '' perr))
    \<and> (fst (GetIncident env
              (NewClient \<lparr>ClientConfig_APIKey = FetchIncidentInput_APIKey iinput,
                          ClientConfig_Timeout = 0\<rparr>)
              (FetchIncidentInput_IncidentID iinput)) = Inl gerr
     \<longrightarrow> fst (FetchIncidentActivity env iinput) = Inl (Errorf_w ''get incident: '' gerr))
    \<and> (fst (ListIncidents env
              (NewClient \<lparr>ClientConfig_APIKey = FetchIncidentsInput_APIKey input,
                          ClientConfig_Timeout = 0\<rparr>)
              (FetchIncidentsInput_Since input) (FetchIncidentsInput_Until input)
              (if FetchIncidentsInput_Limit input \<le> 0 then 100
               else FetchIncidentsInput_Limit input)) = Inr result
       \<and> transform_StoreDocuments env (map incidentToDocument (ListResponse_Incidents result))
           = Inl serr
     \<longrightarrow> fst (FetchIncidentsActivity env input) = Inl (Errorf_w ''store documents: '' serr))
    \<and> (fst (ListIncidents env
              (NewClient \<lparr>ClientConfig_APIKey = FetchPostmortemsInput_APIKey pinput,
                          ClientConfig_Timeout = 0\<rparr>)
              (FetchPostmortemsInput_Since pinput) None
              (if FetchPostmortemsInput_Limit pinput \<le> 0 then 100
               else FetchPostmortemsInput_Limit pinput)) = Inr presult
       \<and> transform_StoreDocuments env (FetchPostmortems_loop (ListResponse_Incidents presult) [])
           = Inl pserr
     \<longrightarrow> fst (FetchPostmortemsActivity env pinput) = Inl (Errorf_w ''store documents: '' pserr))"
proof (intro conjI impI; (elim conjE)?)
  show "Error (api_error resp)
        = ''pagerduty API error: status='' @ Sprintf_d (Response_StatusCode resp)
            @ '' body='' @ Response_Body resp"
    by (rule Error_api_error)
  show "sublist (Sprintf_d (Response_StatusCode resp)) (Error (api_error resp))"
    by (rule api_error_contains(1))
  show "sublist (Response_Body resp) (Error (api_error resp))"
    by (rule api_error_contains(2))
  show "Error (Errorf_w label (api_error resp))
        = label @ ''pagerduty API error: status='' @ Sprintf_d (Response_StatusCode resp)
            @ '' body='' @ Response_Body resp"
    by (simp only: Error_Errorf_w Error_api_error)
  show "Unwrap (Errorf_w label (api_error resp)) = Some (api_error resp)"
    by (simp add: Errorf_w_def)
next
  assume "http_NewRequest_error env
         (Request_Path (ListIncidents_request env c since until limit))
         (Request_Query (ListIncidents_request env c since until limit)) = None"
    and "http_Do env (Client_httpClient_Timeout c)
           (ListIncidents_request env c since until limit) = Inr resp"
  then show "ListIncidents env c since until limit
           = (Inl (api_error resp),
              [ListIncidentsCall since until limit,
               HttpDo (ListIncidents_request env c since until limit)])"
    using assms by (rule ListIncidents_status_not_200)
next
  assume "http_NewRequest_error env
         (Request_Path (GetIncident_request c incidentID))
         (Request_Query (GetIncident_request c incidentID)) = None"
    and "http_Do env (Client_httpClient_Timeout c) (GetIncident_request c incidentID) = Inr resp"
  then show "GetIncident env c incidentID
           = (Inl (api_error resp),
              [GetIncidentCall incidentID, HttpDo (GetIncident_request c incidentID)])"
    using assms by (rule GetIncident_status_not_200)
next
  assume a: "http_NewRequest_error env
         (Request_Path
            (ListIncidents_request env
              (NewClient \<lparr>ClientConfig_APIKey = FetchIncidentsInput_APIKey input,
                          ClientConfig_Timeout = 0\<rparr>)
              (FetchIncidentsInput_Since input) (FetchIncidentsInput_Until input)
              (if FetchIncidentsInput_Limit input \<le> 0 then 100
               else FetchIncidentsInput_Limit input)))
         (Request_Query
            (ListIncidents_request env
              (NewClient \<lparr>ClientConfig_APIKey = FetchIncidentsInput_APIKey input,
                          ClientConfig_Timeout = 0\<rparr>)
              (FetchIncidentsInput_Since input) (FetchIncidentsInput_Until input)
              (if FetchIncidentsInput_Limit input \<le> 0 then 100
               else FetchIncidentsInput_Limit input))) = None"
    "http_Do env (30 * Second)
            (ListIncidents_request env
              (NewClient \<lparr>ClientConfig_APIKey = FetchIncidentsInput_APIKey input,
                          ClientConfig_Timeout = 0\<rparr>)
              (FetchIncidentsInput_Since input) (FetchIncidentsInput_Until input)
              (if FetchIncidentsInput_Limit input \<le> 0 then 100
               else FetchIncidentsInput_Limit input)) = Inr resp"
  show "fst (FetchIncidentsActivity env input)
           = Inl (Errorf_w ''list incidents: '' (api_error resp))"
    using a assms by (rule FetchIncidentsActivity_status_not_200(1))
  show "decodings (snd (FetchIncidentsActivity env input)) = []"
    using a assms by (rule FetchIncidentsActivity_status_not_200(2))
  show "mapper_calls (snd (FetchIncidentsActivity env input)) = []"
    using a assms by (rule FetchIncidentsActivity_status_not_200(3))
  show "stores (snd (FetchIncidentsActivity env input)) = []"
    using a assms by (rule FetchIncidentsActivity_status_not_200(4))
next
  assume a: "http_NewRequest_error env
         (Request_Path
            (ListIncidents_request env
              (NewClient \<lparr>ClientConfig_APIKey = FetchPostmortemsInput_APIKey pinput,
                          ClientConfig_Timeout = 0\<rparr>)
              (FetchPostmortemsInput_Since pinput) None
              (if FetchPostmortemsInput_Limit pinput \<le> 0 then 100
               else FetchPostmortemsInput_Limit pinput)))
         (Request_Query
            (ListIncidents_request env
              (NewClient \<lparr>ClientConfig_APIKey = FetchPostmortemsInput_APIKey pinput,
                          ClientConfig_Timeout = 0\<rparr>)
              (FetchPostmortemsInput_Since pinput) None
              (if FetchPostmortemsInput_Limit pinput \<le> 0 then 100
               else FetchPostmortemsInput_Limit pinput))) = None"
    "http_Do env (30 * Second)
            (ListIncidents_request env
              (NewClient \<lparr>ClientConfig_APIKey = FetchPostmortemsInput_APIKey pinput,
                          ClientConfig_Timeout = 0\<rparr>)
              (FetchPostmortemsInput_Since pinput) None
              (if FetchPostmortemsInput_Limit pinput \<le> 0 then 100
               else FetchPostmortemsInput_Limit pinput)) = Inr resp"
  show "fst (FetchPostmortemsActivity env pinput)
           = Inl (Errorf_w ''list incidents: '' (api_error resp))"
    using a assms by (rule FetchPostmortemsActivity_status_not_200(1))
  show "decodings (snd (FetchPostmortemsActivity env pinput)) = []"
    using a assms by (rule FetchPostmortemsActivity_status_not_200(2))
  show "mapper_calls (snd (FetchPostmortemsActivity env pinput)) = []"
    using a assms by (rule FetchPostmortemsActivity_status_not_200(3))
  show "stores (snd (FetchPostmortemsActivity env pinput)) = []"
    using a assms by (rule FetchPostmortemsActivity_status_not_200(4))
next
  assume a: "http_NewRequest_error env
         (Request_Path
            (GetIncident_request
              (NewClient \<lparr>ClientConfig_APIKey = FetchIncidentInput_APIKey iinput,
                          ClientConfig_Timeout = 0\<rparr>)
              (FetchIncidentInput_IncidentID iinput)))
         (Request_Query
            (GetIncident_request
              (NewClient \<lparr>ClientConfig_APIKey = FetchIncidentInput_APIKey iinput,
                          ClientConfig_Timeout = 0\<rparr>)
              (FetchIncidentInput_IncidentID iinput))) = None"
    "http_Do env (30 * Second)
            (GetIncident_request
              (NewClient \<lparr>ClientConfig_APIKey = FetchIncidentInput_APIKey iinput,
                          ClientConfig_Timeout = 0\<rparr>)
              (FetchIncidentInput_IncidentID iinput)) = Inr resp"
  show "fst (FetchIncidentActivity env iinput)
           = Inl (Errorf_w ''get incident: '' (api_error resp))"
    using a assms by (rule FetchIncidentActivity_status_not_200(1))
  show "decodings (snd (FetchIncidentActivity env iinput)) = []"
    using a assms by (rule FetchIncidentActivity_status_not_200(2))
  show "mapper_calls (snd (FetchIncidentActivity env iinput)) = []"
    using a assms by (rule FetchIncidentActivity_status_not_200(3))
next
  assume "fst (ListIncidents env
              (NewClient \<lparr>ClientConfig_APIKey = FetchIncidentsInput_APIKey input,
                          ClientConfig_Timeout = 0\<rparr>)
              (FetchIncidentsInput_Since input) (FetchIncidentsInput_Until input)
              (if FetchIncidentsInput_Limit input \<le> 0 then 100
               else FetchIncidentsInput_Limit input)) = Inl lerr"
  then show "fst (FetchIncidentsActivity env input) = Inl (Errorf_w ''list incidents: '' lerr)"
    by (rule FetchIncidentsActivity_list_failed)
next
  assume "fst (ListIncidents env
              (NewClient \<lparr>ClientConfig_APIKey = FetchPostmortemsInput_APIKey pinput,
                          ClientConfig_Timeout = 0\<rparr>)
              (FetchPostmortemsInput_Since pinput) None
              (if FetchPostmortemsInput_Limit pinput \<le> 0 then 100
               else FetchPostmortemsInput_Limit pinput)) = Inl perr"
  then show "fst (FetchPostmortemsActivity env pinput) = Inl (Errorf_w ''list incidents: '' perr)"
    by (rule FetchPostmortemsActivity_list_failed)
next
  assume "fst (GetIncident env
              (NewClient \<lparr>ClientConfig_APIKey = FetchIncidentInput_APIKey iinput,
                          ClientConfig_Timeout = 0\<rparr>)
              (FetchIncidentInput_IncidentID iinput)) = Inl gerr"
  then show "fst (FetchIncidentActivity env iinput) = Inl (Errorf_w ''get incident: '' gerr)"
    by (rule FetchIncidentActivity_get_failed)
next
  assume r: "fst (ListIncidents env
              (NewClient \<lparr>ClientConfig_APIKey = FetchIncidentsInput_APIKey input,
                          ClientConfig_Timeout = 0\<rparr>)
              (FetchIncidentsInput_Since input) (FetchIncidentsInput_Until input)
              (if FetchIncidentsInput_Limit input \<le> 0 then 100
               else FetchIncidentsInput_Limit input)) = Inr result"
    and st: "transform_StoreDocuments env (map incidentToDocument (ListResponse_Incidents result))
           = Inl serr"
  from FetchIncidentsActivity_list_ok(1) [OF r] st
  show "fst (FetchIncidentsActivity env input) = Inl (Errorf_w ''store documents: '' serr)"
    by simp
next
  assume r: "fst (ListIncidents env
              (NewClient \<lparr>ClientConfig_APIKey = FetchPostmortemsInput_APIKey pinput,
                          ClientConfig_Timeout = 0\<rparr>)
              (FetchPostmortemsInput_Since pinput) None
              (if FetchPostmortemsInput_Limit pinput \<le> 0 then 100
               else FetchPostmortemsInput_Limit pinput)) = Inr presult"
    and st: "transform_StoreDocuments env (FetchPostmortems_loop (ListResponse_Incidents presult) [])
           = Inl pserr"
  from FetchPostmortemsActivity_list_ok(1) [OF r] st
  show "fst (FetchPostmortemsActivity env pinput) = Inl (Errorf_w ''store documents: '' pserr)"
    by simp
qed

theorem non_200_is_error_witness:
  "Response_StatusCode \<lparr>Response_StatusCode = 404, Response_Body = not_found_body\<rparr> \<noteq> 200
   \<and> http_Do env_404 (30 * Second)
        (ListIncidents_request env_404
           (NewClient \<lparr>ClientConfig_APIKey = ''key'', ClientConfig_Timeout = 0\<rparr>)
           (Some 10) (Some 20) 100)
       = Inr \<lparr>Response_StatusCode = 404, Response_Body = not_found_body\<rparr>
   \<and> http_Do env_404 (30 * Second)
        (GetIncident_request
           (NewClient \<lparr>ClientConfig_APIKey = ''key'', ClientConfig_Timeout = 0\<rparr>) ''I3'')
       = Inr \<lparr>Response_StatusCode = 404, Response_Body = not_found_body\<rparr>
   \<and> fst (FetchIncidentsActivity env_404 (incidents_input 0))
       = Inl (WrapError
                (''list incidents: pagerduty API error: status=404 body='' @ not_found_body)
                (ErrorString (''pagerduty API error: status=404 body='' @ not_found_body)))
   \<and> decodings (snd (FetchIncidentsActivity env_404 (incidents_input 0))) = []
   \<and> mapper_calls (snd (FetchIncidentsActivity env_404 (incidents_input 0))) = []
   \<and> stores (snd (FetchIncidentsActivity env_404 (incidents_input 0))) = []
   \<and> fst (FetchPostmortemsActivity env_404 (postmortems_input 0))
       = Inl (WrapError
                (''list incidents: pagerduty API error: status=404 body='' @ not_found_body)
                (ErrorString (''pagerduty API error: status=404 body='' @ not_found_body)))
   \<and> mapper_calls (snd (FetchPostmortemsActivity env_404 (postmortems_input 0))) = []
   \<and> stores (snd (FetchPostmortemsActivity env_404 (postmortems_input 0))) = []
   \<and> fst (FetchIncidentActivity env_404 incident_input)
       = Inl (WrapError
                (''get incident: pagerduty API error: status=404 body='' @ not_found_body)
                (ErrorString (''pagerduty API error: status=404 body='' @ not_found_body)))
   \<and> decodings (snd (FetchIncidentActivity env_404 incident_input)) = []
   \<and> mapper_calls (snd (FetchIncidentActivity env_404 incident_input)) = []
   \<and> fst (ListIncidents env_404
             (NewClient \<lparr>ClientConfig_APIKey = ''key'', ClientConfig_Timeout = 0\<rparr>)
             (Some 10) (Some 20) 100)
       = Inl (ErrorString (''pagerduty API error: status=404 body='' @ not_found_body))
   \<and> fst (GetIncident env_404
             (NewClient \<lparr>ClientConfig_APIKey = ''key'', ClientConfig_Timeout = 0\<rparr>) ''I3'')
       = Inl (ErrorString (''pagerduty API error: status=404 body='' @ not_found_body))
   \<and> fst (ListIncidents env_store_fails
             (NewClient \<lparr>ClientConfig_APIKey = ''key'', ClientConfig_Timeout = 0\<rparr>)
             (Some 10) (Some 20) 100)
       = Inr (sample_response four_incidents 57)
   \<and> transform_StoreDocuments env_store_fails (map incidentToDocument four_incidents)
       = Inl (ErrorString ''bucket unavailable'')
   \<and> fst (FetchIncidentsActivity env_store_fails (incidents_input 0))
       = Inl (WrapError ''store documents: bucket unavailable'' (ErrorString ''bucket unavailable''))
   \<and> fst (FetchPostmortemsActivity env_store_fails (postmortems_input 0))
       = Inl (WrapError ''store documents: bucket unavailable'' (ErrorString ''bucket unavailable''))"
  using
    non_200_is_error
      [where resp = "\<lparr>Response_StatusCode = 404, Response_Body = not_found_body\<rparr>"
         and env = env_404
         and c = "NewClient \<lparr>ClientConfig_APIKey = ''key'', ClientConfig_Timeout = 0\<rparr>"
         and since = "Some 10" and until = "Some 20" and limit = 100
         and incidentID = "''I3''" and input = "incidents_input 0"
         and pinput = "postmortems_input 0" and iinput = incident_input
         and label = "''list incidents: ''"
         and lerr = "ErrorString (''pagerduty API error: status=404 body='' @ not_found_body)"
         and perr = "ErrorString (''pagerduty API error: status=404 body='' @ not_found_body)"
         and gerr = "ErrorString (''pagerduty API error: status=404 body='' @ not_found_body)"
         and result = "sample_response four_incidents 57"
         and serr = "ErrorString ''bucket unavailable''"
         and presult = "sample_response four_incidents 57"
         and pserr = "ErrorString ''bucket unavailable''"]
    non_200_is_error
      [where resp = "\<lparr>Response_StatusCode = 404, Response_Body = not_found_body\<rparr>"
         and env = env_store_fails
         and c = "NewClient \<lparr>ClientConfig_APIKey = ''key'', ClientConfig_Timeout = 0\<rparr>"
         and since = "Some 10" and until = "Some 20" and limit = 100
         and incidentID = "''I3''" and input = "incidents_input 0"
         and pinput = "postmortems_input 0" and iinput = incident_input
         and label = "''store documents: ''"
         and lerr = "ErrorString ''none''" and perr = "ErrorString ''none''"
         and gerr = "ErrorString ''none''"
         and result = "sample_response four_incidents 57"
         and serr = "ErrorString ''bucket unavailable''"
         and presult = "sample_response four_incidents 57"
         and pserr = "ErrorString ''bucket unavailable''"]
  by (simp add: sample_defs ListIncidents_request_def GetIncident_request_def)

text \<open>
  The claim as first stated, for every response of an endpoint, fails: where the list
  endpoint answers 302 with a location that answers 200, the response of the endpoint
  has a status other than 200, yet \<open>ListIncidents\<close> returns the decoded list with no
  error, and \<open>FetchIncidentsActivity\<close> decodes the body, calls the mapper on each of the
  four incidents and succeeds. The same holds of the single-incident endpoint.
\<close>

theorem non_200_redirect_counterexample:
  "http_RoundTrip env_redirect (30 * Second)
      (ListIncidents_request env_redirect
         (NewClient \<lparr>ClientConfig_APIKey = ''key'', ClientConfig_Timeout = 0\<rparr>)
         (Some 10) (Some 20) 100)
     = Inr \<lparr>Response_StatusCode = 302, Response_Body = ''moved''\<rparr>
   \<and> Response_StatusCode \<lparr>Response_StatusCode = 302, Response_Body = ''moved''\<rparr> \<noteq> 200
   \<and> fst (ListIncidents env_redirect
             (NewClient \<lparr>ClientConfig_APIKey = ''key'', ClientConfig_Timeout = 0\<rparr>)
             (Some 10) (Some 20) 100)
       = Inr (sample_response four_incidents 57)
   \<and> requests (snd (FetchIncidentsActivity env_redirect (incidents_input 0)))
       = [ListIncidents_request env_redirect
            (NewClient \<lparr>ClientConfig_APIKey = ''key'', ClientConfig_Timeout = 0\<rparr>)
            (Some 10) (Some 20) 100]
   \<and> fst (FetchIncidentsActivity env_redirect (incidents_input 0))
       = Inr \<lparr>FetchIncidentsOutput_Ref = ''ref-1'', FetchIncidentsOutput_Count = 4,
              FetchIncidentsOutput_Total = 57\<rparr>
   \<and> decodings (snd (FetchIncidentsActivity env_redirect (incidents_input 0))) = [''{}'']
   \<and> mapper_calls (snd (FetchIncidentsActivity env_redirect (incidents_input 0)))
       = four_incidents
   \<and> http_RoundTrip env_redirect (30 * Second)
        (GetIncident_request
           (NewClient \<lparr>ClientConfig_APIKey = ''key'', ClientConfig_Timeout = 0\<rparr>) ''I3'')
     = Inr \<lparr>Response_StatusCode = 302, Response_Body = ''moved''\<rparr>
   \<and> fst (FetchIncidentActivity env_redirect incident_input)
       = Inr \<lparr>FetchIncidentOutput_Document
                = incidentToDocument (sample_incident ''I3'' ''resolved'' ''fixed'' None []),
              FetchIncidentOutput_Found = True\<rparr>"
  by (simp add: sample_defs http_Do_follow_9 env_redirect_def moved_response_def
        ListIncidents_request_def GetIncident_request_def)

text \<open>
  Claim C8. \<open>FetchPostmortemsActivity\<close> calls \<open>ListIncidents\<close> with the input's
  \<open>since\<close> bound and no \<open>until\<close> bound, so that a request it sends has no \<open>until\<close>
  parameter; its output, when it succeeds, is made of the handle the storage returned
  and the number of documents stored, and of nothing else.
\<close>

theorem FetchPostmortems_since_only:
  "list_calls (snd (FetchPostmortemsActivity env input)) =
     [(FetchPostmortemsInput_Since input, None,
       if FetchPostmortemsInput_Limit input \<le> 0 then 100
       else FetchPostmortemsInput_Limit input)]
   \<and> (\<forall>req \<in> set (requests (snd (FetchPostmortemsActivity env input))).
         Request_Query req ''until'' = None
         \<and> Request_Query req ''since''
             = map_option (time_Format_RFC3339 env) (FetchPostmortemsInput_Since input))
   \<and> (\<forall>out. fst (FetchPostmortemsActivity env input) = Inr out \<longrightarrow>
         (\<exists>docs ref.
            stores (snd (FetchPostmortemsActivity env input)) = [docs]
            \<and> transform_StoreDocuments env docs = Inr ref
            \<and> out = \<lparr>FetchPostmortemsOutput_Ref = ref,
                      FetchPostmortemsOutput_Count = int (length docs)\<rparr>))"
proof (intro conjI ballI allI impI)
  show "list_calls (snd (FetchPostmortemsActivity env input)) =
     [(FetchPostmortemsInput_Since input, None,
       if FetchPostmortemsInput_Limit input \<le> 0 then 100
       else FetchPostmortemsInput_Limit input)]"
    by (rule list_calls_FetchPostmortemsActivity)
next
  fix req assume "req \<in> set (requests (snd (FetchPostmortemsActivity env input)))"
  then have r: "req \<in> set (requests (snd (ListIncidents env
        (NewClient \<lparr>ClientConfig_APIKey = FetchPostmortemsInput_APIKey input,
                    ClientConfig_Timeout = 0\<rparr>)
        (FetchPostmortemsInput_Since input) None
        (if FetchPostmortemsInput_Limit input \<le> 0 then 100
         else FetchPostmortemsInput_Limit input))))"
    by (simp only: requests_FetchPostmortemsActivity)
  from requests_ListIncidents_bounds [OF r]
  show "Request_Query req ''until'' = None" by simp
  from requests_ListIncidents_bounds [OF r]
  show "Request_Query req ''since''
             = map_option (time_Format_RFC3339 env) (FetchPostmortemsInput_Since input)" by simp
next
  fix out assume out: "fst (FetchPostmortemsActivity env input) = Inr out"
  show "\<exists>docs ref.
            stores (snd (FetchPostmortemsActivity env input)) = [docs]
            \<and> transform_StoreDocuments env docs = Inr ref
            \<and> out = \<lparr>FetchPostmortemsOutput_Ref = ref,
                      FetchPostmortemsOutput_Count = int (length docs)\<rparr>"
  proof (cases "fst (ListIncidents env
        (NewClient \<lparr>ClientConfig_APIKey = FetchPostmortemsInput_APIKey input,
                    ClientConfig_Timeout = 0\<rparr>)
        (FetchPostmortemsInput_Since input) None
        (if FetchPostmortemsInput_Limit input \<le> 0 then 100
         else FetchPostmortemsInput_Limit input))")
    case (Inl err)
    from FetchPostmortemsActivity_list_failed [OF Inl] out show ?thesis by simp
  next
    case (Inr result)
    note ok = FetchPostmortemsActivity_list_ok [OF Inr]
    show ?thesis
    proof (cases "transform_StoreDocuments env
                    (FetchPostmortems_loop (ListResponse_Incidents result) [])")
      case (Inl err)
      with ok(1) out show ?thesis by simp
    next
      case store: (Inr ref)
      with ok(1) out have
        "out = \<lparr>FetchPostmortemsOutput_Ref = ref,
                FetchPostmortemsOutput_Count =
                  int (length (FetchPostmortems_loop (ListResponse_Incidents result) []))\<rparr>"
        by simp
      with ok(2) store show ?thesis by simp
    qed
  qed
qed

theorem FetchPostmortems_since_only_witness:
  "list_calls (snd (FetchPostmortemsActivity env_ok (postmortems_input 0)))
     = [(Some 10, None, 100)]
   \<and> map (\<lambda>req. (Request_Query req ''since'', Request_Query req ''until''))
        (requests (snd (FetchPostmortemsActivity env_ok (postmortems_input 0))))
     = [(Some ''2024-05-01T00:00:00Z'', None)]
   \<and> fst (FetchPostmortemsActivity env_ok (postmortems_input 0))
     = Inr \<lparr>FetchPostmortemsOutput_Ref = ''ref-1'', FetchPostmortemsOutput_Count = 2\<rparr>"
  using FetchPostmortems_since_only [of env_ok "postmortems_input 0"]
  by (simp add: sample_defs sample_incident_def)

text \<open>
  Claim C9. The documents \<open>FetchPostmortemsActivity\<close> produces are the incidents of the
  response with status \<open>resolved\<close>, in the order of the response, each mapped by
  \<open>incidentToDocument\<close> and then given the metadata entry \<open>document_type\<close>, an entry the
  mapper itself never sets.
\<close>

theorem FetchPostmortems_is_map_filter:
  "FetchPostmortems_loop incidents [] =
     map (\<lambda>i. (incidentToDocument i)\<lparr>Document_Metadata :=
                 (Document_Metadata (incidentToDocument i))(''document_type'' \<mapsto> ''postmortem'')\<rparr>)
         (filter (\<lambda>i. Incident_Status i = ''resolved'') incidents)
   \<and> (fst (ListIncidents env
            (NewClient \<lparr>ClientConfig_APIKey = FetchPostmortemsInput_APIKey input,
                        ClientConfig_Timeout = 0\<rparr>)
            (FetchPostmortemsInput_Since input) None
            (if FetchPostmortemsInput_Limit input \<le> 0 then 100
             else FetchPostmortemsInput_Limit input)) = Inr result
       \<longrightarrow> stores (snd (FetchPostmortemsActivity env input)) =
             [map (\<lambda>i. (incidentToDocument i)\<lparr>Document_Metadata :=
                     (Document_Metadata (incidentToDocument i))
                       (''document_type'' \<mapsto> ''postmortem'')\<rparr>)
                  (filter (\<lambda>i. Incident_Status i = ''resolved'') (ListResponse_Incidents result))])
   \<and> Document_Metadata (incidentToDocument incident) ''document_type'' = None"
proof (intro conjI impI)
  show "FetchPostmortems_loop incidents [] =
     map (\<lambda>i. (incidentToDocument i)\<lparr>Document_Metadata :=
                 (Document_Metadata (incidentToDocument i))(''document_type'' \<mapsto> ''postmortem'')\<rparr>)
         (filter (\<lambda>i. Incident_Status i = ''resolved'') incidents)"
    by (simp add: FetchPostmortems_loop_append)
next
  assume "fst (ListIncidents env
            (NewClient \<lparr>ClientConfig_APIKey = FetchPostmortemsInput_APIKey input,
                        ClientConfig_Timeout = 0\<rparr>)
            (FetchPostmortemsInput_Since input) None
            (if FetchPostmortemsInput_Limit input \<le> 0 then 100
             else FetchPostmortemsInput_Limit input)) = Inr result"
  from FetchPostmortemsActivity_list_ok(2) [OF this]
  show "stores (snd (FetchPostmortemsActivity env input)) =
             [map (\<lambda>i. (incidentToDocument i)\<lparr>Document_Metadata :=
                     (Document_Metadata (incidentToDocument i))
                       (''document_type'' \<mapsto> ''postmortem'')\<rparr>)
                  (filter (\<lambda>i. Incident_Status i = ''resolved'') (ListResponse_Incidents result))]"
    by (simp add: FetchPostmortems_loop_append)
next
  show "Document_Metadata (incidentToDocument incident) ''document_type'' = None"
    by (rule metadata_no_document_type)
qed

theorem FetchPostmortems_is_map_filter_witness:
  "stores (snd (FetchPostmortemsActivity env_ok (postmortems_input 5))) =
     [[(incidentToDocument (sample_incident ''I3'' ''resolved'' ''fixed'' None
                              [sample_assignment ''ada'']))
         \<lparr>Document_Metadata :=
            (Document_Metadata (incidentToDocument
               (sample_incident ''I3'' ''resolved'' ''fixed'' None [sample_assignment ''ada''])))
            (''document_type'' \<mapsto> ''postmortem'')\<rparr>,
       (incidentToDocument (sample_incident ''I4'' ''resolved'' [] None []))
         \<lparr>Document_Metadata :=
            (Document_Metadata (incidentToDocument (sample_incident ''I4'' ''resolved'' [] None [])))
            (''document_type'' \<mapsto> ''postmortem'')\<rparr>]]"
  using FetchPostmortems_is_map_filter
    [of four_incidents env_ok "postmortems_input 5" "sample_response four_incidents 57"]
  by (simp add: sample_defs sample_incident_def)

text \<open>
  Claim C10. The limit with which \<open>FetchIncidentsActivity\<close> and
  \<open>FetchPostmortemsActivity\<close> call \<open>ListIncidents\<close> is strictly positive: it is the
  input's limit or 100. The request then carries that very limit, so the default of 25
  inside \<open>ListIncidents\<close> never applies on a run of an activity.
\<close>

theorem activity_limit_positive:
  "(\<exists>l. list_calls (snd (FetchIncidentsActivity env input))
           = [(FetchIncidentsInput_Since input, FetchIncidentsInput_Until input, l)]
        \<and> 0 < l \<and> (l = FetchIncidentsInput_Limit input \<or> l = 100)
        \<and> (\<forall>req \<in> set (requests (snd (FetchIncidentsActivity env input))).
              Request_Query req ''limit'' = Some (Sprintf_d l)))
   \<and> (\<exists>l. list_calls (snd (FetchPostmortemsActivity env pinput))
           = [(FetchPostmortemsInput_Since pinput, None, l)]
        \<and> 0 < l \<and> (l = FetchPostmortemsInput_Limit pinput \<or> l = 100)
        \<and> (\<forall>req \<in> set (requests (snd (FetchPostmortemsActivity env pinput))).
              Request_Query req ''limit'' = Some (Sprintf_d l)))"
proof (intro conjI)
  let ?l = "if FetchIncidentsInput_Limit input \<le> 0 then 100 else FetchIncidentsInput_Limit input"
  have pos: "0 < ?l" and eq: "?l = FetchIncidentsInput_Limit input \<or> ?l = 100" by simp_all
  have "\<forall>req \<in> set (requests (snd (FetchIncidentsActivity env input))).
          Request_Query req ''limit'' = Some (Sprintf_d ?l)"
  proof
    fix req assume "req \<in> set (requests (snd (FetchIncidentsActivity env input)))"
    then have "Request_Query req ''limit'' = Some (Sprintf_d (if ?l \<le> 0 then 25 else ?l))"
      unfolding requests_FetchIncidentsActivity by (rule requests_ListIncidents_limit)
    with pos show "Request_Query req ''limit'' = Some (Sprintf_d ?l)" by (simp split: if_splits)
  qed
  with list_calls_FetchIncidentsActivity [of env input] pos eq
  show "\<exists>l. list_calls (snd (FetchIncidentsActivity env input))
           = [(FetchIncidentsInput_Since input, FetchIncidentsInput_Until input, l)]
        \<and> 0 < l \<and> (l = FetchIncidentsInput_Limit input \<or> l = 100)
        \<and> (\<forall>req \<in> set (requests (snd (FetchIncidentsActivity env input))).
              Request_Query req ''limit'' = Some (Sprintf_d l))"
    by blast
next
  let ?l = "if FetchPostmortemsInput_Limit pinput \<le> 0 then 100
            else FetchPostmortemsInput_Limit pinput"
  have pos: "0 < ?l" and eq: "?l = FetchPostmortemsInput_Limit pinput \<or> ?l = 100" by simp_all
  have "\<forall>req \<in> set (requests (snd (FetchPostmortemsActivity env pinput))).
          Request_Query req ''limit'' = Some (Sprintf_d ?l)"
  proof
    fix req assume "req \<in> set (requests (snd (FetchPostmortemsActivity env pinput)))"
    then have "Request_Query req ''limit'' = Some (Sprintf_d (if ?l \<le> 0 then 25 else ?l))"
      unfolding requests_FetchPostmortemsActivity by (rule requests_ListIncidents_limit)
    with pos show "Request_Query req ''limit'' = Some (Sprintf_d ?l)" by (simp split: if_splits)
  qed
  with list_calls_FetchPostmortemsActivity [of env pinput] pos eq
  show "\<exists>l. list_calls (snd (FetchPostmortemsActivity env pinput))
           = [(FetchPostmortemsInput_Since pinput, None, l)]
        \<and> 0 < l \<and> (l = FetchPostmortemsInput_Limit pinput \<or> l = 100)
        \<and> (\<forall>req \<in> set (requests (snd (FetchPostmortemsActivity env pinput))).
              Request_Query req ''limit'' = Some (Sprintf_d l))"
    by blast
qed

theorem activity_limit_positive_witness:
  "list_calls (snd (FetchIncidentsActivity env_ok (incidents_input (- 8))))
     = [(Some 10, Some 20, 100)]
   \<and> list_calls (snd (FetchPostmortemsActivity env_ok (postmortems_input 25)))
     = [(Some 10, None, 25)]
   \<and> map (\<lambda>req. Request_Query req ''limit'')
        (requests (snd (FetchIncidentsActivity env_ok (incidents_input (- 8))))) = [Some ''100'']
   \<and> map (\<lambda>req. Request_Query req ''limit'')
        (requests (snd (FetchPostmortemsActivity env_ok (postmortems_input 25)))) = [Some ''25'']"
  using activity_limit_positive [of env_ok "incidents_input (- 8)" "postmortems_input 25"]
  by (simp add: sample_defs)

end
